theory Spec2Isabelle
  imports
    Complex_Main
    "HOL-Library.List_Lexorder"
    "HOL-Library.Char_ord"
    "HOL-Library.Product_Lexorder"
    "HOL-Library.AList"
    "HOL-Library.Multiset"
begin

section \<open>The relational store of database.py\<close>

text \<open>
  Every function of \<^verbatim>\<open>database.py\<close> opens a connection of its own
  (\<^verbatim>\<open>async with aiosqlite.connect(DATABASE_PATH) as db\<close>), executes one or more SQL
  statements and commits. The model below keeps the tables the functions of the module
  read or write, each table as the list of its rows in the order of insertion. Where a
  query has no \<^verbatim>\<open>ORDER BY\<close>, or its \<^verbatim>\<open>ORDER BY\<close> leaves rows tied, SQL does
  not fix the order of the result; no theorem below depends on the order the model
  gives to such rows.

  Modelling conventions.
  \<^item> An SQL \<^verbatim>\<open>INTEGER\<close> and a Python \<^verbatim>\<open>int\<close> are \<^typ>\<open>int\<close>; the values are taken to lie
    in SQLite's 64-bit range, where both arithmetics agree with \<^typ>\<open>int\<close>.
  \<^item> \<^verbatim>\<open>rating_score REAL\<close> is \<^typ>\<open>real\<close>; only its order and its sign are used by the
    theorems below, never the rounding of its arithmetic.
  \<^item> A \<^verbatim>\<open>TIMESTAMP DEFAULT CURRENT_TIMESTAMP\<close> column holds the text SQLite writes
    (\<^verbatim>\<open>YYYY-MM-DD HH:MM:SS\<close>); \<^verbatim>\<open>ORDER BY\<close> compares such texts byte by byte, which
    is the lexicographic order of \<^typ>\<open>string\<close>. The reading of the SQL clock is a
    parameter \<open>ts\<close> of every operation that uses it.
  \<^item> \<^verbatim>\<open>datetime.now()\<close> is a parameter \<open>now\<close>: a naive datetime, counted in
    microseconds from \<^verbatim>\<open>datetime.min\<close>, which is 0001-01-01T00:00:00.
  \<^item> \<^verbatim>\<open>secrets.randbelow(999999)\<close> is a parameter \<open>rnd\<close>.
  \<^item> \<^verbatim>\<open>PRAGMA foreign_keys = ON\<close> is executed by \<^verbatim>\<open>init_db\<close> on its own
    connection only. The pragma is a setting of one connection, so the connections the
    operations open run with SQLite's default: foreign keys are recorded in the schema
    and not enforced.
\<close>

datatype error = IntegrityError | TypeError | ValueError | OverflowError

type_synonym timestamp = string

record user =
  user_id :: int
  username :: string
  first_name :: string
  last_name :: string
  is_premium :: bool
  premium_expires_at :: "string option"
  referral_code :: string
  referred_by :: "int option"
  created_at :: timestamp
  last_activity :: timestamp
  total_sessions :: int
  words_learned :: int
  quiz_score_total :: int
  quiz_attempts :: int
  rating_score :: real
  referral_count :: int

record section_row =
  sec_id :: int
  sec_name :: string
  sec_description :: string
  sec_language :: string
  sec_is_premium :: bool
  sec_created_at :: timestamp
  sec_created_by :: "int option"

record subsection_row =
  sub_id :: int
  sub_section_id :: int
  sub_name :: string
  sub_description :: string
  sub_is_premium :: bool
  sub_created_at :: timestamp

record content_row =
  c_id :: int
  c_section_id :: int
  c_subsection_id :: int
  c_title :: string
  c_description :: string
  c_content_type :: string
  c_file_id :: "string option"
  c_file_path :: "string option"
  c_content_text :: "string option"
  c_is_premium :: bool
  c_created_at :: timestamp

record quiz_attempt_row =
  qa_id :: int
  qa_user_id :: int
  qa_quiz_id :: int
  qa_score :: int
  qa_total_questions :: int
  qa_completed_at :: timestamp

record referral_row =
  ref_id :: int
  referrer_id :: int
  referred_id :: int
  ref_created_at :: timestamp

record quiz_row =
  qz_id :: int
  qz_title :: string
  qz_description :: string
  qz_language :: string
  qz_category :: string
  qz_is_premium :: bool
  qz_created_by :: "int option"
  qz_created_at :: timestamp

record question_row =
  qn_id :: int
  qn_quiz_id :: int
  qn_question_text :: string
  qn_option_a :: string
  qn_option_b :: string
  qn_option_c :: string
  qn_option_d :: string
  qn_correct_answer :: string
  qn_explanation :: string

record premium_content_row =
  pc_id :: int
  pc_section_type :: string
  pc_title :: string
  pc_description :: string
  pc_file_id :: "string option"
  pc_file_type :: "string option"
  pc_content_text :: "string option"
  pc_created_at :: timestamp
  pc_order_index :: int

text \<open>
  The table \<^verbatim>\<open>user_progress\<close> is created by \<^verbatim>\<open>init_db\<close> and never read or written
  by any function of the module; it is left out. The \<open>seq_\<close> fields are the rows of \<^verbatim>\<open>sqlite_sequence\<close>: the largest id an
  \<^verbatim>\<open>AUTOINCREMENT\<close> table has handed out so far.
\<close>

record db =
  users :: "user list"
  sections :: "section_row list"
  subsections :: "subsection_row list"
  content :: "content_row list"
  quiz_attempts_table :: "quiz_attempt_row list"
  referrals :: "referral_row list"
  quizzes :: "quiz_row list"
  questions :: "question_row list"
  premium_content :: "premium_content_row list"
  seq_sections :: int
  seq_subsections :: int
  seq_content :: int
  seq_quiz_attempts :: int
  seq_referrals :: int
  seq_quizzes :: int
  seq_questions :: int
  seq_premium_content :: int

definition empty_db :: db where
  "empty_db = \<lparr>users = [], sections = [], subsections = [], content = [],
     quiz_attempts_table = [], referrals = [], quizzes = [], questions = [],
     premium_content = [],
     seq_sections = 0, seq_subsections = 0, seq_content = 0,
     seq_quiz_attempts = 0, seq_referrals = 0, seq_quizzes = 0, seq_questions = 0,
     seq_premium_content = 0\<rparr>"

subsection \<open>Connections, statements and commit\<close>

text \<open>
  A connection sees the committed store and works on a copy of it: the transaction
  Python's \<^verbatim>\<open>sqlite3\<close> opens before the first \<^verbatim>\<open>INSERT\<close>, \<^verbatim>\<open>UPDATE\<close> or
  \<^verbatim>\<open>DELETE\<close>. \<^verbatim>\<open>db.execute\<close> changes the copy or raises; \<^verbatim>\<open>db.commit()\<close> makes
  the copy the committed store. Leaving the \<^verbatim>\<open>async with\<close> block closes the connection,
  and what was not committed is rolled back.
\<close>

record conn =
  committed :: db
  working :: db

datatype action = Execute "db \<Rightarrow> error + db" | Commit

definition connect :: "db \<Rightarrow> conn" where
  "connect d = \<lparr>committed = d, working = d\<rparr>"

fun perform :: "action \<Rightarrow> conn \<Rightarrow> error + conn" where
  "perform (Execute f) c =
     (case f (working c) of Inl e \<Rightarrow> Inl e | Inr d \<Rightarrow> Inr (c\<lparr>working := d\<rparr>))"
| "perform Commit c = Inr (c\<lparr>committed := working c\<rparr>)"

text \<open>
  \<open>run\<close> performs the actions in order and stops at the first one that raises; it
  returns the exception, if any, and the connection as it then is.
\<close>

fun run :: "action list \<Rightarrow> conn \<Rightarrow> error option \<times> conn" where
  "run [] c = (None, c)"
| "run (a # as) c =
     (case perform a c of Inl e \<Rightarrow> (Some e, c) | Inr c' \<Rightarrow> run as c')"

text \<open>
  The body of an \<^verbatim>\<open>async with aiosqlite.connect(...)\<close> block: the result is the
  exception that left the block, or the committed store once the block is done. Every
  block of the module commits last, so with \<open>Inl e\<close> the committed store is the one
  from before the call.
\<close>

definition with_connection :: "action list \<Rightarrow> db \<Rightarrow> error + db" where
  "with_connection as d =
     (case run as (connect d) of
        (Some e, c) \<Rightarrow> Inl e
      | (None, c) \<Rightarrow> Inr (committed c))"

text \<open>
  What every other connection finds in the store when the process is lost after the
  first \<open>k\<close> actions of the block.
\<close>

definition durable_after :: "nat \<Rightarrow> action list \<Rightarrow> db \<Rightarrow> db" where
  "durable_after k as d = committed (snd (run (take k as) (connect d)))"

subsection \<open>Python helpers\<close>

definition fetchone :: "'a list \<Rightarrow> 'a option" where
  "fetchone rows = (case rows of [] \<Rightarrow> None | r # _ \<Rightarrow> Some r)"

text \<open>\<^verbatim>\<open>x or ""\<close> for an optional string.\<close>

definition or_empty :: "string option \<Rightarrow> string" where
  "or_empty x = (case x of None \<Rightarrow> [] | Some s \<Rightarrow> s)"

text \<open>A parameter with a default value: \<open>None\<close> is the call that leaves it out.\<close>

definition or_default :: "'a \<Rightarrow> 'a option \<Rightarrow> 'a" where
  "or_default dflt x = (case x of None \<Rightarrow> dflt | Some v \<Rightarrow> v)"

text \<open>The format \<^verbatim>\<open>{n:06d}\<close>: decimal digits, padded with zeros to six places.\<close>

definition digit_char :: "nat \<Rightarrow> char" where
  "digit_char k = char_of (48 + k)"

fun digits :: "nat \<Rightarrow> string" where
  "digits n = (if n < 10 then [digit_char n] else digits (n div 10) @ [digit_char (n mod 10)])"

declare digits.simps [simp del]

definition format_06d :: "nat \<Rightarrow> string" where
  "format_06d n = replicate (6 - length (digits n)) (CHR ''0'') @ digits n"

text \<open>
  Python datetimes: naive ones (as \<^verbatim>\<open>datetime.now()\<close> returns them) and ones that
  carry a UTC offset. Comparing a naive with an aware datetime raises
  \<^verbatim>\<open>TypeError\<close>.
\<close>

datatype pydatetime = Naive int | Aware int

fun dt_less :: "pydatetime \<Rightarrow> pydatetime \<Rightarrow> error + bool" where
  "dt_less (Naive a) (Naive b) = Inr (a < b)"
| "dt_less (Aware a) (Aware b) = Inr (a < b)"
| "dt_less _ _ = Inl TypeError"

text \<open>The length of \<open>n\<close> days in microseconds.\<close>

definition timedelta_days :: "int \<Rightarrow> int" where
  "timedelta_days n = n * 86400000000"

text \<open>
  \<^verbatim>\<open>timedelta(days=n)\<close>: the constructor raises \<^verbatim>\<open>OverflowError\<close> when the
  magnitude of \<open>n\<close> exceeds 999999999 days.
\<close>

definition timedelta :: "int \<Rightarrow> error + int" where
  "timedelta days =
     (if \<bar>days\<bar> \<le> 999999999 then Inr (timedelta_days days) else Inl OverflowError)"

text \<open>
  \<^verbatim>\<open>datetime.max\<close> is 9999-12-31T23:59:59.999999, the last microsecond of day
  3652059. A datetime plus a timedelta raises \<^verbatim>\<open>OverflowError\<close> when the sum is
  before \<^verbatim>\<open>datetime.min\<close> or after \<^verbatim>\<open>datetime.max\<close>.
\<close>

definition datetime_max :: int where
  "datetime_max = 3652059 * 86400000000 - 1"

definition datetime_add :: "int \<Rightarrow> int \<Rightarrow> error + int" where
  "datetime_add t delta =
     (if 0 \<le> t + delta \<and> t + delta \<le> datetime_max then Inr (t + delta)
      else Inl OverflowError)"

section \<open>Account store\<close>

text \<open>\<^verbatim>\<open>SELECT * FROM users WHERE user_id = ?\<close>, then \<^verbatim>\<open>fetchone()\<close>.\<close>

definition get_user :: "int \<Rightarrow> db \<Rightarrow> user option" where
  "get_user uid d = fetchone [u \<leftarrow> users d. user_id u = uid]"

definition get_user_by_referral_code :: "string \<Rightarrow> db \<Rightarrow> user option" where
  "get_user_by_referral_code code d = fetchone [u \<leftarrow> users d. referral_code u = code]"

text \<open>
  \<^verbatim>\<open>INSERT OR IGNORE INTO users\<close>: a row that would break the primary key
  \<^verbatim>\<open>user_id\<close> or the \<^verbatim>\<open>UNIQUE\<close> constraint of \<^verbatim>\<open>referral_code\<close> is skipped, and the
  statement raises nothing.
\<close>

definition insert_or_ignore_user :: "user \<Rightarrow> db \<Rightarrow> error + db" where
  "insert_or_ignore_user r d =
     (if (\<exists>u \<in> set (users d). user_id u = user_id r)
         \<or> (\<exists>u \<in> set (users d). referral_code u = referral_code r)
      then Inr d
      else Inr (d\<lparr>users := users d @ [r]\<rparr>))"

text \<open>
  \<^verbatim>\<open>UPDATE users SET ... WHERE user_id = ?\<close>: \<open>f\<close> is the \<^verbatim>\<open>SET\<close> clause. None of the
  updates of \<^verbatim>\<open>database.py\<close> writes a constrained column, so the statement cannot
  raise.
\<close>

definition update_users_where_id :: "int \<Rightarrow> (user \<Rightarrow> user) \<Rightarrow> db \<Rightarrow> error + db" where
  "update_users_where_id uid f d =
     Inr (d\<lparr>users := map (\<lambda>u. if user_id u = uid then f u else u) (users d)\<rparr>)"

definition referral_code_of :: "nat \<Rightarrow> string" where
  "referral_code_of rnd = ''REF'' @ format_06d rnd"

text \<open>The row \<^verbatim>\<open>create_user\<close> inserts: the columns it names, the others at their defaults.\<close>

definition new_user ::
  "nat \<Rightarrow> int \<Rightarrow> string option \<Rightarrow> string \<Rightarrow> string option \<Rightarrow> int option \<Rightarrow> timestamp \<Rightarrow> user" where
  "new_user rnd uid uname fname lname ref_by ts =
     \<lparr>user_id = uid, username = or_empty uname, first_name = fname,
      last_name = or_empty lname, is_premium = False, premium_expires_at = None,
      referral_code = referral_code_of rnd, referred_by = ref_by,
      created_at = ts, last_activity = ts, total_sessions = 0, words_learned = 0,
      quiz_score_total = 0, quiz_attempts = 0, rating_score = 0, referral_count = 0\<rparr>"

definition create_user ::
  "nat \<Rightarrow> int \<Rightarrow> string option \<Rightarrow> string \<Rightarrow> string option \<Rightarrow> int option \<Rightarrow> timestamp
     \<Rightarrow> db \<Rightarrow> error + db" where
  "create_user rnd uid uname fname lname ref_by ts =
     with_connection
       [Execute (insert_or_ignore_user (new_user rnd uid uname fname lname ref_by ts)),
        Commit]"

definition update_user_activity :: "int \<Rightarrow> string option \<Rightarrow> timestamp \<Rightarrow> db \<Rightarrow> error + db" where
  "update_user_activity uid activity_type ts =
     with_connection
       [Execute (update_users_where_id uid
          (\<lambda>u. u\<lparr>last_activity := ts, total_sessions := total_sessions u + 1\<rparr>)),
        Commit]"

text \<open>
  \<^verbatim>\<open>is_premium_active\<close>. \<open>fromisoformat\<close> stands for \<^verbatim>\<open>datetime.fromisoformat\<close>,
  which is not part of the repository: it returns a datetime or raises. The parse and
  the comparison are both inside the \<^verbatim>\<open>try\<close>; \<^verbatim>\<open>ValueError\<close> and \<^verbatim>\<open>TypeError\<close> are
  caught, anything else leaves the function.
\<close>

definition is_premium_active ::
  "(string \<Rightarrow> error + pydatetime) \<Rightarrow> int \<Rightarrow> int \<Rightarrow> db \<Rightarrow> error + bool" where
  "is_premium_active fromisoformat now uid d =
     (case fetchone [u \<leftarrow> users d. user_id u = uid] of
        None \<Rightarrow> Inr False
      | Some u \<Rightarrow>
          if \<not> is_premium u then Inr False
          else (case premium_expires_at u of
                  None \<Rightarrow> Inr False
                | Some s \<Rightarrow>
                    (case (case fromisoformat s of
                             Inl e \<Rightarrow> Inl e
                           | Inr expires_at \<Rightarrow> dt_less (Naive now) expires_at) of
                       Inr b \<Rightarrow> Inr b
                     | Inl e \<Rightarrow> if e = ValueError \<or> e = TypeError then Inr False else Inl e)))"

text \<open>
  \<^verbatim>\<open>activate_premium\<close>. \<open>isoformat\<close> stands for \<^verbatim>\<open>datetime.isoformat\<close> on a naive
  datetime; the default of \<^verbatim>\<open>duration_days\<close> is 30. The expiry
  \<^verbatim>\<open>datetime.now() + timedelta(days=duration_days)\<close> is computed before the connection
  is opened: when it raises, the store has not been touched.
\<close>

definition activate_premium ::
  "(int \<Rightarrow> string) \<Rightarrow> int \<Rightarrow> int \<Rightarrow> int option \<Rightarrow> db \<Rightarrow> error + db" where
  "activate_premium isoformat now uid duration_days d =
     (case timedelta (or_default 30 duration_days) of
        Inl e \<Rightarrow> Inl e
      | Inr delta \<Rightarrow>
          (case datetime_add now delta of
             Inl e \<Rightarrow> Inl e
           | Inr expires_at \<Rightarrow>
               with_connection
                 [Execute (update_users_where_id uid
                    (\<lambda>u. u\<lparr>is_premium := True,
                           premium_expires_at := Some (isoformat expires_at)\<rparr>)),
                  Commit] d))"

definition revoke_premium :: "int \<Rightarrow> db \<Rightarrow> error + db" where
  "revoke_premium uid =
     with_connection
       [Execute (update_users_where_id uid
          (\<lambda>u. u\<lparr>is_premium := False, premium_expires_at := None\<rparr>)),
        Commit]"

definition update_user_rating :: "int \<Rightarrow> real \<Rightarrow> db \<Rightarrow> error + db" where
  "update_user_rating uid points =
     with_connection
       [Execute (update_users_where_id uid
          (\<lambda>u. u\<lparr>rating_score := rating_score u + points\<rparr>)),
        Commit]"

text \<open>The parameter \<open>cnt\<close> is \<^verbatim>\<open>count\<close>; its default is 1.\<close>

definition update_words_learned :: "int \<Rightarrow> int option \<Rightarrow> db \<Rightarrow> error + db" where
  "update_words_learned uid cnt =
     with_connection
       [Execute (update_users_where_id uid
          (\<lambda>u. u\<lparr>words_learned := words_learned u + or_default 1 cnt\<rparr>)),
        Commit]"

definition update_referral_count :: "int \<Rightarrow> db \<Rightarrow> error + db" where
  "update_referral_count uid =
     with_connection
       [Execute (update_users_where_id uid
          (\<lambda>u. u\<lparr>referral_count := referral_count u + 1\<rparr>)),
        Commit]"

definition reset_referral_count :: "int \<Rightarrow> db \<Rightarrow> error + db" where
  "reset_referral_count uid =
     with_connection
       [Execute (update_users_where_id uid (\<lambda>u. u\<lparr>referral_count := 0\<rparr>)),
        Commit]"

text \<open>
  \<^verbatim>\<open>INSERT INTO referrals (referrer_id, referred_id)\<close>: the id comes from the table's
  sequence, \<^verbatim>\<open>created_at\<close> from the SQL clock.
\<close>

definition insert_referral :: "int \<Rightarrow> int \<Rightarrow> timestamp \<Rightarrow> db \<Rightarrow> error + db" where
  "insert_referral referrer referred ts d =
     Inr (d\<lparr>referrals := referrals d @
               [\<lparr>ref_id = seq_referrals d + 1, referrer_id = referrer,
                 referred_id = referred, ref_created_at = ts\<rparr>],
             seq_referrals := seq_referrals d + 1\<rparr>)"

definition add_referral :: "int \<Rightarrow> int \<Rightarrow> timestamp \<Rightarrow> db \<Rightarrow> error + db" where
  "add_referral referrer referred ts =
     with_connection [Execute (insert_referral referrer referred ts), Commit]"

text \<open>\<^verbatim>\<open>SELECT COUNT(*) FROM referrals WHERE referrer_id = ?\<close>.\<close>

definition get_user_referrals_count :: "int \<Rightarrow> db \<Rightarrow> int" where
  "get_user_referrals_count uid d = int (length [r \<leftarrow> referrals d. referrer_id r = uid])"

section \<open>Content catalog\<close>

text \<open>
  The three inserts take their id from the table's sequence and \<^verbatim>\<open>created_at\<close> from
  the SQL clock; each returns \<^verbatim>\<open>cursor.lastrowid\<close> beside the new store. The defaults
  are \<^verbatim>\<open>language = "uzbek"\<close> and \<^verbatim>\<open>is_premium = False\<close>.
\<close>

definition insert_section ::
  "string \<Rightarrow> string \<Rightarrow> string \<Rightarrow> bool \<Rightarrow> int option \<Rightarrow> timestamp \<Rightarrow> db \<Rightarrow> error + db" where
  "insert_section name description language prem created_by ts d =
     Inr (d\<lparr>sections := sections d @
               [\<lparr>sec_id = seq_sections d + 1, sec_name = name,
                 sec_description = description, sec_language = language,
                 sec_is_premium = prem, sec_created_at = ts,
                 sec_created_by = created_by\<rparr>],
             seq_sections := seq_sections d + 1\<rparr>)"

definition create_section ::
  "string \<Rightarrow> string \<Rightarrow> string option \<Rightarrow> bool option \<Rightarrow> int option \<Rightarrow> timestamp
     \<Rightarrow> db \<Rightarrow> error + int \<times> db" where
  "create_section name description language prem created_by ts d =
     (case with_connection
             [Execute (insert_section name description (or_default ''uzbek'' language)
                (or_default False prem) created_by ts),
              Commit] d of
        Inl e \<Rightarrow> Inl e
      | Inr d' \<Rightarrow> Inr (seq_sections d', d'))"

definition insert_subsection ::
  "int \<Rightarrow> string \<Rightarrow> string \<Rightarrow> bool \<Rightarrow> timestamp \<Rightarrow> db \<Rightarrow> error + db" where
  "insert_subsection section_id name description prem ts d =
     Inr (d\<lparr>subsections := subsections d @
               [\<lparr>sub_id = seq_subsections d + 1, sub_section_id = section_id,
                 sub_name = name, sub_description = description,
                 sub_is_premium = prem, sub_created_at = ts\<rparr>],
             seq_subsections := seq_subsections d + 1\<rparr>)"

definition create_subsection ::
  "int \<Rightarrow> string \<Rightarrow> string \<Rightarrow> bool option \<Rightarrow> timestamp \<Rightarrow> db \<Rightarrow> error + int \<times> db" where
  "create_subsection section_id name description prem ts d =
     (case with_connection
             [Execute (insert_subsection section_id name description
                (or_default False prem) ts),
              Commit] d of
        Inl e \<Rightarrow> Inl e
      | Inr d' \<Rightarrow> Inr (seq_subsections d', d'))"

definition insert_content ::
  "int \<Rightarrow> int \<Rightarrow> string \<Rightarrow> string \<Rightarrow> string \<Rightarrow> string option \<Rightarrow> string option \<Rightarrow> bool
     \<Rightarrow> timestamp \<Rightarrow> db \<Rightarrow> error + db" where
  "insert_content section_id subsection_id title description content_type file_id
       content_text prem ts d =
     Inr (d\<lparr>content := content d @
               [\<lparr>c_id = seq_content d + 1, c_section_id = section_id,
                 c_subsection_id = subsection_id, c_title = title,
                 c_description = description, c_content_type = content_type,
                 c_file_id = file_id, c_file_path = None,
                 c_content_text = content_text, c_is_premium = prem,
                 c_created_at = ts\<rparr>],
             seq_content := seq_content d + 1\<rparr>)"

definition add_content ::
  "int \<Rightarrow> int \<Rightarrow> string \<Rightarrow> string \<Rightarrow> string \<Rightarrow> string option \<Rightarrow> string option
     \<Rightarrow> bool option \<Rightarrow> timestamp \<Rightarrow> db \<Rightarrow> error + int \<times> db" where
  "add_content section_id subsection_id title description content_type file_id
       content_text prem ts d =
     (case with_connection
             [Execute (insert_content section_id subsection_id title description
                content_type file_id content_text (or_default False prem) ts),
              Commit] d of
        Inl e \<Rightarrow> Inl e
      | Inr d' \<Rightarrow> Inr (seq_content d', d'))"

text \<open>The three \<^verbatim>\<open>DELETE\<close> statements of the catalog.\<close>

definition delete_content_where_section :: "int \<Rightarrow> db \<Rightarrow> error + db" where
  "delete_content_where_section sid d =
     Inr (d\<lparr>content := [c \<leftarrow> content d. c_section_id c \<noteq> sid]\<rparr>)"

definition delete_content_where_subsection :: "int \<Rightarrow> db \<Rightarrow> error + db" where
  "delete_content_where_subsection subid d =
     Inr (d\<lparr>content := [c \<leftarrow> content d. c_subsection_id c \<noteq> subid]\<rparr>)"

definition delete_subsections_where_section :: "int \<Rightarrow> db \<Rightarrow> error + db" where
  "delete_subsections_where_section sid d =
     Inr (d\<lparr>subsections := [s \<leftarrow> subsections d. sub_section_id s \<noteq> sid]\<rparr>)"

definition delete_subsections_where_id :: "int \<Rightarrow> db \<Rightarrow> error + db" where
  "delete_subsections_where_id subid d =
     Inr (d\<lparr>subsections := [s \<leftarrow> subsections d. sub_id s \<noteq> subid]\<rparr>)"

definition delete_sections_where_id :: "int \<Rightarrow> db \<Rightarrow> error + db" where
  "delete_sections_where_id sid d =
     Inr (d\<lparr>sections := [s \<leftarrow> sections d. sec_id s \<noteq> sid]\<rparr>)"

text \<open>
  \<^verbatim>\<open>delete_section\<close>: content whose \<^verbatim>\<open>section_id\<close> is the section, then the
  subsections of the section, then the section, then one commit.
\<close>

definition delete_section_actions :: "int \<Rightarrow> action list" where
  "delete_section_actions section_id =
     [Execute (delete_content_where_section section_id),
      Execute (delete_subsections_where_section section_id),
      Execute (delete_sections_where_id section_id),
      Commit]"

definition delete_section :: "int \<Rightarrow> db \<Rightarrow> error + db" where
  "delete_section section_id = with_connection (delete_section_actions section_id)"

text \<open>\<^verbatim>\<open>delete_subsection\<close>: content whose \<^verbatim>\<open>subsection_id\<close> is the subsection, then the subsection.\<close>

definition delete_subsection :: "int \<Rightarrow> db \<Rightarrow> error + db" where
  "delete_subsection subsection_id =
     with_connection
       [Execute (delete_content_where_subsection subsection_id),
        Execute (delete_subsections_where_id subsection_id),
        Commit]"

subsection \<open>Listing sections\<close>

text \<open>
  The values a row of \<^verbatim>\<open>SELECT * FROM sections\<close> holds once it has reached Python.
  No \<^verbatim>\<open>row_factory\<close> is set on the connection, so a row is a plain tuple: the id and
  the boolean come back as \<^verbatim>\<open>int\<close>, the texts as \<^verbatim>\<open>str\<close>, \<^verbatim>\<open>NULL\<close> as \<^verbatim>\<open>None\<close>.
\<close>

datatype pyval = PInt int | PStr string | PNone

definition section_tuple :: "section_row \<Rightarrow> pyval list" where
  "section_tuple s =
     [PInt (sec_id s), PStr (sec_name s), PStr (sec_description s), PStr (sec_language s),
      PInt (if sec_is_premium s then 1 else 0), PStr (sec_created_at s),
      (case sec_created_by s of None \<Rightarrow> PNone | Some i \<Rightarrow> PInt i)]"

text \<open>
  Python's \<^verbatim>\<open>dict(iterable)\<close>: every element has to be a sequence of two items, the
  key and the value. An element that is no sequence (an \<^verbatim>\<open>int\<close>, \<^verbatim>\<open>None\<close>) raises
  \<^verbatim>\<open>TypeError\<close>, a sequence of another length raises \<^verbatim>\<open>ValueError\<close>; a string
  of two characters is a sequence of two items.
\<close>

fun dict_update_from :: "pyval list \<Rightarrow> (pyval \<times> pyval) list \<Rightarrow> error + (pyval \<times> pyval) list" where
  "dict_update_from [] acc = Inr acc"
| "dict_update_from (PStr s # xs) acc =
     (case s of
        [k, v] \<Rightarrow> dict_update_from xs (AList.update (PStr [k]) (PStr [v]) acc)
      | _ \<Rightarrow> Inl ValueError)"
| "dict_update_from (PInt i # xs) acc = Inl TypeError"
| "dict_update_from (PNone # xs) acc = Inl TypeError"

definition py_dict :: "pyval list \<Rightarrow> error + (pyval \<times> pyval) list" where
  "py_dict xs = dict_update_from xs []"

text \<open>A list comprehension: the first element that raises ends it.\<close>

fun comprehension :: "('a \<Rightarrow> error + 'b) \<Rightarrow> 'a list \<Rightarrow> error + 'b list" where
  "comprehension f [] = Inr []"
| "comprehension f (x # xs) =
     (case f x of
        Inl e \<Rightarrow> Inl e
      | Inr y \<Rightarrow> (case comprehension f xs of Inl e \<Rightarrow> Inl e | Inr ys \<Rightarrow> Inr (y # ys)))"

text \<open>
  The query \<^verbatim>\<open>get_sections\<close> builds: \<^verbatim>\<open>if language:\<close> adds the language condition
  for a string that is not empty, \<^verbatim>\<open>if is_premium is not None:\<close> adds the premium
  condition for \<^verbatim>\<open>True\<close> and for \<^verbatim>\<open>False\<close>; then \<^verbatim>\<open>ORDER BY created_at\<close>.
\<close>

definition sections_where :: "string option \<Rightarrow> bool option \<Rightarrow> section_row \<Rightarrow> bool" where
  "sections_where language prem s =
     ((case language of
         None \<Rightarrow> True
       | Some l \<Rightarrow> if l = [] then True else sec_language s = l)
      \<and> (case prem of None \<Rightarrow> True | Some p \<Rightarrow> sec_is_premium s = p))"

definition select_sections :: "string option \<Rightarrow> bool option \<Rightarrow> db \<Rightarrow> section_row list" where
  "select_sections language prem d =
     sort_key sec_created_at [s \<leftarrow> sections d. sections_where language prem s]"

text \<open>
  \<^verbatim>\<open>get_sections\<close>: \<^verbatim>\<open>return [dict(row) for row in rows] if rows else []\<close>.
\<close>

definition get_sections ::
  "string option \<Rightarrow> bool option \<Rightarrow> db \<Rightarrow> error + (pyval \<times> pyval) list list" where
  "get_sections language prem d =
     (let rows = map section_tuple (select_sections language prem d) in
      if rows = [] then Inr [] else comprehension py_dict rows)"

section \<open>Quiz attempts and the leaderboard\<close>

definition insert_quiz_attempt :: "int \<Rightarrow> int \<Rightarrow> int \<Rightarrow> int \<Rightarrow> timestamp \<Rightarrow> db \<Rightarrow> error + db" where
  "insert_quiz_attempt uid quiz_id score total_questions ts d =
     Inr (d\<lparr>quiz_attempts_table := quiz_attempts_table d @
               [\<lparr>qa_id = seq_quiz_attempts d + 1, qa_user_id = uid, qa_quiz_id = quiz_id,
                 qa_score = score, qa_total_questions = total_questions,
                 qa_completed_at = ts\<rparr>],
             seq_quiz_attempts := seq_quiz_attempts d + 1\<rparr>)"

text \<open>
  \<^verbatim>\<open>record_quiz_attempt\<close>: the \<^verbatim>\<open>INSERT\<close>, the \<^verbatim>\<open>UPDATE\<close> of the user's counters
  and one commit, on one connection.
\<close>

definition record_quiz_attempt_actions :: "int \<Rightarrow> int \<Rightarrow> int \<Rightarrow> int \<Rightarrow> timestamp \<Rightarrow> action list" where
  "record_quiz_attempt_actions uid quiz_id score total_questions ts =
     [Execute (insert_quiz_attempt uid quiz_id score total_questions ts),
      Execute (update_users_where_id uid
         (\<lambda>u. u\<lparr>quiz_score_total := quiz_score_total u + score,
                quiz_attempts := quiz_attempts u + 1\<rparr>)),
      Commit]"

definition record_quiz_attempt :: "int \<Rightarrow> int \<Rightarrow> int \<Rightarrow> int \<Rightarrow> timestamp \<Rightarrow> db \<Rightarrow> error + db" where
  "record_quiz_attempt uid quiz_id score total_questions ts =
     with_connection (record_quiz_attempt_actions uid quiz_id score total_questions ts)"

text \<open>
  \<^verbatim>\<open>LIMIT ?\<close>: SQLite reads a negative limit as no limit.
\<close>

definition sql_limit :: "int \<Rightarrow> 'a list \<Rightarrow> 'a list" where
  "sql_limit n rows = (if n < 0 then rows else take (nat n) rows)"

text \<open>
  \<^verbatim>\<open>ORDER BY rating_score DESC, words_learned DESC, quiz_score_total DESC\<close>: the
  ascending lexicographic order of the three negated columns.
\<close>

definition leaderboard_key :: "user \<Rightarrow> real \<times> int \<times> int" where
  "leaderboard_key u = (- rating_score u, - words_learned u, - quiz_score_total u)"

definition leaderboard_row :: "user \<Rightarrow> int \<times> string \<times> string \<times> real \<times> int \<times> int" where
  "leaderboard_row u =
     (user_id u, first_name u, username u, rating_score u, words_learned u, quiz_score_total u)"

text \<open>\<^verbatim>\<open>get_leaderboard\<close>; the default of \<^verbatim>\<open>limit\<close> is 10.\<close>

definition get_leaderboard ::
  "int option \<Rightarrow> db \<Rightarrow> (int \<times> string \<times> string \<times> real \<times> int \<times> int) list" where
  "get_leaderboard limit d =
     map leaderboard_row
       (sql_limit (or_default 10 limit)
          (sort_key leaderboard_key [u \<leftarrow> users d. 0 < rating_score u]))"

section \<open>The remaining writers\<close>

text \<open>\<^verbatim>\<open>delete_content\<close>: \<^verbatim>\<open>DELETE FROM content WHERE id = ?\<close>.\<close>

definition delete_content_where_id :: "int \<Rightarrow> db \<Rightarrow> error + db" where
  "delete_content_where_id cid d = Inr (d\<lparr>content := [c \<leftarrow> content d. c_id c \<noteq> cid]\<rparr>)"

definition delete_content :: "int \<Rightarrow> db \<Rightarrow> error + db" where
  "delete_content content_id =
     with_connection [Execute (delete_content_where_id content_id), Commit]"

definition insert_quiz ::
  "string \<Rightarrow> string \<Rightarrow> string \<Rightarrow> string \<Rightarrow> bool \<Rightarrow> int option \<Rightarrow> timestamp \<Rightarrow> db
     \<Rightarrow> error + db" where
  "insert_quiz title description language category prem created_by ts d =
     Inr (d\<lparr>quizzes := quizzes d @
               [\<lparr>qz_id = seq_quizzes d + 1, qz_title = title, qz_description = description,
                 qz_language = language, qz_category = category, qz_is_premium = prem,
                 qz_created_by = created_by, qz_created_at = ts\<rparr>],
             seq_quizzes := seq_quizzes d + 1\<rparr>)"

definition create_quiz ::
  "string \<Rightarrow> string \<Rightarrow> string \<Rightarrow> string \<Rightarrow> bool option \<Rightarrow> int option \<Rightarrow> timestamp \<Rightarrow> db
     \<Rightarrow> error + int \<times> db" where
  "create_quiz title description language category prem created_by ts d =
     (case with_connection
             [Execute (insert_quiz title description language category
                (or_default False prem) created_by ts),
              Commit] d of
        Inl e \<Rightarrow> Inl e
      | Inr d' \<Rightarrow> Inr (seq_quizzes d', d'))"

text \<open>The default of \<^verbatim>\<open>explanation\<close> is the empty string.\<close>

definition insert_question ::
  "int \<Rightarrow> string \<Rightarrow> string \<Rightarrow> string \<Rightarrow> string \<Rightarrow> string \<Rightarrow> string \<Rightarrow> string \<Rightarrow> db
     \<Rightarrow> error + db" where
  "insert_question quiz_id question_text option_a option_b option_c option_d
       correct_answer explanation d =
     Inr (d\<lparr>questions := questions d @
               [\<lparr>qn_id = seq_questions d + 1, qn_quiz_id = quiz_id,
                 qn_question_text = question_text, qn_option_a = option_a,
                 qn_option_b = option_b, qn_option_c = option_c, qn_option_d = option_d,
                 qn_correct_answer = correct_answer, qn_explanation = explanation\<rparr>],
             seq_questions := seq_questions d + 1\<rparr>)"

definition add_question ::
  "int \<Rightarrow> string \<Rightarrow> string \<Rightarrow> string \<Rightarrow> string \<Rightarrow> string \<Rightarrow> string \<Rightarrow> string option \<Rightarrow> db
     \<Rightarrow> error + int \<times> db" where
  "add_question quiz_id question_text option_a option_b option_c option_d
       correct_answer explanation d =
     (case with_connection
             [Execute (insert_question quiz_id question_text option_a option_b option_c
                option_d correct_answer (or_default [] explanation)),
              Commit] d of
        Inl e \<Rightarrow> Inl e
      | Inr d' \<Rightarrow> Inr (seq_questions d', d'))"

definition delete_questions_where_quiz :: "int \<Rightarrow> db \<Rightarrow> error + db" where
  "delete_questions_where_quiz qid d =
     Inr (d\<lparr>questions := [q \<leftarrow> questions d. qn_quiz_id q \<noteq> qid]\<rparr>)"

definition delete_quizzes_where_id :: "int \<Rightarrow> db \<Rightarrow> error + db" where
  "delete_quizzes_where_id qid d = Inr (d\<lparr>quizzes := [q \<leftarrow> quizzes d. qz_id q \<noteq> qid]\<rparr>)"

definition delete_quiz :: "int \<Rightarrow> db \<Rightarrow> error + db" where
  "delete_quiz quiz_id =
     with_connection
       [Execute (delete_questions_where_quiz quiz_id),
        Execute (delete_quizzes_where_id quiz_id),
        Commit]"

text \<open>
  \<^verbatim>\<open>INSERT INTO premium_content\<close>: the table has two \<^verbatim>\<open>CHECK\<close> constraints, on
  \<^verbatim>\<open>section_type\<close> and on \<^verbatim>\<open>file_type\<close>; a \<^verbatim>\<open>NULL\<close> passes a \<^verbatim>\<open>CHECK\<close>, a value
  outside the list raises \<^verbatim>\<open>IntegrityError\<close>.
\<close>

definition insert_premium_content ::
  "string \<Rightarrow> string \<Rightarrow> string \<Rightarrow> string option \<Rightarrow> string option \<Rightarrow> string option \<Rightarrow> timestamp
     \<Rightarrow> db \<Rightarrow> error + db" where
  "insert_premium_content section_type title description file_id file_type content_text ts d =
     (if section_type \<in> set [''topik1'', ''topik2'', ''jlpt'']
         \<and> (case file_type of
               None \<Rightarrow> True
             | Some ft \<Rightarrow> ft \<in> set [''photo'', ''video'', ''audio'', ''document'', ''music'',
                                   ''text''])
      then Inr (d\<lparr>premium_content := premium_content d @
                     [\<lparr>pc_id = seq_premium_content d + 1, pc_section_type = section_type,
                       pc_title = title, pc_description = description, pc_file_id = file_id,
                       pc_file_type = file_type, pc_content_text = content_text,
                       pc_created_at = ts, pc_order_index = 0\<rparr>],
                   seq_premium_content := seq_premium_content d + 1\<rparr>)
      else Inl IntegrityError)"

definition add_premium_content ::
  "string \<Rightarrow> string \<Rightarrow> string \<Rightarrow> string option \<Rightarrow> string option \<Rightarrow> string option \<Rightarrow> timestamp
     \<Rightarrow> db \<Rightarrow> error + int \<times> db" where
  "add_premium_content section_type title description file_id file_type content_text ts d =
     (case with_connection
             [Execute (insert_premium_content section_type title description file_id
                file_type content_text ts),
              Commit] d of
        Inl e \<Rightarrow> Inl e
      | Inr d' \<Rightarrow> Inr (seq_premium_content d', d'))"

definition delete_premium_content_where_id :: "int \<Rightarrow> db \<Rightarrow> error + db" where
  "delete_premium_content_where_id pid d =
     Inr (d\<lparr>premium_content := [p \<leftarrow> premium_content d. pc_id p \<noteq> pid]\<rparr>)"

definition delete_premium_content :: "int \<Rightarrow> db \<Rightarrow> error + db" where
  "delete_premium_content content_id =
     with_connection [Execute (delete_premium_content_where_id content_id), Commit]"

subsection \<open>Every function that writes\<close>

text \<open>
  The functions of \<^verbatim>\<open>database.py\<close> that execute an \<^verbatim>\<open>INSERT\<close>, an \<^verbatim>\<open>UPDATE\<close> or
  a \<^verbatim>\<open>DELETE\<close>, each with its arguments and the readings of the clock and of the random
  source it takes; all other functions of the module only \<^verbatim>\<open>SELECT\<close>
  (\<^verbatim>\<open>init_db\<close> creates the tables and changes no row). \<open>call\<close> runs one of them and
  keeps the store.
\<close>

datatype operation =
    CreateUser nat int "string option" string "string option" "int option" timestamp
  | UpdateUserActivity int "string option" timestamp
  | ActivatePremium int int "int option"
  | RevokePremium int
  | UpdateUserRating int real
  | UpdateWordsLearned int "int option"
  | AddReferral int int timestamp
  | UpdateReferralCount int
  | ResetReferralCount int
  | RecordQuizAttempt int int int int timestamp
  | CreateSection string string "string option" "bool option" "int option" timestamp
  | CreateSubsection int string string "bool option" timestamp
  | AddContent int int string string string "string option" "string option" "bool option"
      timestamp
  | DeleteSection int
  | DeleteSubsection int
  | DeleteContent int
  | CreateQuiz string string string string "bool option" "int option" timestamp
  | AddQuestion int string string string string string string "string option"
  | DeleteQuiz int
  | AddPremiumContent string string string "string option" "string option" "string option"
      timestamp
  | DeletePremiumContent int

definition store_of :: "error + 'a \<times> db \<Rightarrow> error + db" where
  "store_of r = (case r of Inl e \<Rightarrow> Inl e | Inr (x, d) \<Rightarrow> Inr d)"

fun call :: "(int \<Rightarrow> string) \<Rightarrow> operation \<Rightarrow> db \<Rightarrow> error + db" where
  "call isoformat (CreateUser rnd uid uname fname lname ref_by ts) d =
     create_user rnd uid uname fname lname ref_by ts d"
| "call isoformat (UpdateUserActivity uid activity_type ts) d =
     update_user_activity uid activity_type ts d"
| "call isoformat (ActivatePremium now uid duration_days) d =
     activate_premium isoformat now uid duration_days d"
| "call isoformat (RevokePremium uid) d = revoke_premium uid d"
| "call isoformat (UpdateUserRating uid points) d = update_user_rating uid points d"
| "call isoformat (UpdateWordsLearned uid cnt) d = update_words_learned uid cnt d"
| "call isoformat (AddReferral referrer referred ts) d = add_referral referrer referred ts d"
| "call isoformat (UpdateReferralCount uid) d = update_referral_count uid d"
| "call isoformat (ResetReferralCount uid) d = reset_referral_count uid d"
| "call isoformat (RecordQuizAttempt uid quiz_id score total_questions ts) d =
     record_quiz_attempt uid quiz_id score total_questions ts d"
| "call isoformat (CreateSection name description language prem created_by ts) d =
     store_of (create_section name description language prem created_by ts d)"
| "call isoformat (CreateSubsection section_id name description prem ts) d =
     store_of (create_subsection section_id name description prem ts d)"
| "call isoformat (AddContent section_id subsection_id title description content_type
       file_id content_text prem ts) d =
     store_of (add_content section_id subsection_id title description content_type
       file_id content_text prem ts d)"
| "call isoformat (DeleteSection section_id) d = delete_section section_id d"
| "call isoformat (DeleteSubsection subsection_id) d = delete_subsection subsection_id d"
| "call isoformat (DeleteContent content_id) d = delete_content content_id d"
| "call isoformat (CreateQuiz title description language category prem created_by ts) d =
     store_of (create_quiz title description language category prem created_by ts d)"
| "call isoformat (AddQuestion quiz_id question_text option_a option_b option_c option_d
       correct_answer explanation) d =
     store_of (add_question quiz_id question_text option_a option_b option_c option_d
       correct_answer explanation d)"
| "call isoformat (DeleteQuiz quiz_id) d = delete_quiz quiz_id d"
| "call isoformat (AddPremiumContent section_type title description file_id file_type
       content_text ts) d =
     store_of (add_premium_content section_type title description file_id file_type
       content_text ts d)"
| "call isoformat (DeletePremiumContent content_id) d = delete_premium_content content_id d"

section \<open>Example stores\<close>

text \<open>The stores the theorems below are evaluated on.\<close>

definition ts0 :: timestamp where
  "ts0 = ''2024-01-01 00:00:00''"

text \<open>One user, Ann, whose referral code was drawn as 7.\<close>

definition ann :: user where
  "ann = new_user 7 1 (Some ''ann'') ''Ann'' None None ts0"

definition db_ann :: db where
  "db_ann = empty_db\<lparr>users := [ann]\<rparr>"

text \<open>
  Two naive datetimes in microseconds from \<^verbatim>\<open>datetime.min\<close>: 2024-01-01T00:00:00 is
  the start of day 738886, and 2024-01-31T00:00:00 is thirty days later.
\<close>

definition jan_01 :: int where
  "jan_01 = 63839664000000000"

definition jan_31 :: int where
  "jan_31 = 63842256000000000"

text \<open>
  A fragment of \<^verbatim>\<open>datetime.isoformat\<close> and \<^verbatim>\<open>datetime.fromisoformat\<close>, enough for
  the examples.
\<close>

definition demo_isoformat :: "int \<Rightarrow> string" where
  "demo_isoformat t =
     (if t = jan_31 then ''2024-01-31T00:00:00'' else ''2024-01-01T00:00:00'')"

definition demo_fromisoformat :: "string \<Rightarrow> error + pydatetime" where
  "demo_fromisoformat s =
     (if s = ''2024-01-31T00:00:00'' then Inr (Naive jan_31)
      else if s = ''2024-01-01T00:00:00'' then Inr (Naive jan_01)
      else if s = ''2024-01-31T00:00:00+00:00'' then Inr (Aware jan_31)
      else Inl ValueError)"

text \<open>Ann with premium until 2024-01-31T00:00:00.\<close>

definition db_ann_premium :: db where
  "db_ann_premium =
     empty_db\<lparr>users := [ann\<lparr>is_premium := True,
                              premium_expires_at := Some ''2024-01-31T00:00:00''\<rparr>]\<rparr>"

text \<open>Ann with the premium flag set and the expiry 2024-01-01T00:00:00.\<close>

definition db_ann_expired :: db where
  "db_ann_expired =
     empty_db\<lparr>users := [ann\<lparr>is_premium := True,
                              premium_expires_at := Some ''2024-01-01T00:00:00''\<rparr>]\<rparr>"

text \<open>
  The users of the leaderboard example: ratings 5, 5, 3 and 0, words learned 10, 20, 5
  and 0.
\<close>

definition board_user :: "int \<Rightarrow> string \<Rightarrow> real \<Rightarrow> int \<Rightarrow> user" where
  "board_user uid fname rating words =
     (new_user (nat uid) uid None fname None None ts0)
       \<lparr>rating_score := rating, words_learned := words\<rparr>"

definition db_board :: db where
  "db_board = empty_db\<lparr>users :=
     [board_user 1 ''Ann'' 5 10, board_user 2 ''Bob'' 5 20,
      board_user 3 ''Cho'' 3 5, board_user 4 ''Dan'' 0 0]\<rparr>"

text \<open>Two users, Ann and Bob, with the referral codes drawn as 7 and 8.\<close>

definition bob :: user where
  "bob = new_user 8 2 None ''Bob'' None None ts0"

definition db_ann_bob :: db where
  "db_ann_bob = empty_db\<lparr>users := [ann, bob]\<rparr>"

text \<open>One section that is not premium, tagged \<^verbatim>\<open>korean\<close>.\<close>

definition db_korean :: db where
  "db_korean = empty_db\<lparr>sections :=
       [\<lparr>sec_id = 1, sec_name = ''Hangul'', sec_description = ''Alphabet'',
         sec_language = ''korean'', sec_is_premium = False, sec_created_at = ts0,
         sec_created_by = None\<rparr>],
     seq_sections := 1\<rparr>"

text \<open>
  A section, a subsection of it, and a content item filed under the subsection only:
  its \<^verbatim>\<open>section_id\<close> is 0, the value of ``no section'' and the column's default.
  \<open>db_orphan\<close> is \<open>db_lesson\<close> without the section and the subsection.
\<close>

definition db_section :: db where
  "db_section = empty_db\<lparr>sections :=
       [\<lparr>sec_id = 1, sec_name = ''Grammar'', sec_description = ''Basics'',
         sec_language = ''korean'', sec_is_premium = False, sec_created_at = ts0,
         sec_created_by = None\<rparr>],
     seq_sections := 1\<rparr>"

definition db_subsection :: db where
  "db_subsection = db_section\<lparr>subsections :=
       [\<lparr>sub_id = 1, sub_section_id = 1, sub_name = ''Verbs'',
         sub_description = ''Verb forms'', sub_is_premium = False, sub_created_at = ts0\<rparr>],
     seq_subsections := 1\<rparr>"

definition lesson :: content_row where
  "lesson = \<lparr>c_id = 1, c_section_id = 0, c_subsection_id = 1, c_title = ''Lesson 1'',
     c_description = ''First lesson'', c_content_type = ''text'', c_file_id = None,
     c_file_path = None, c_content_text = Some ''annyeong'', c_is_premium = False,
     c_created_at = ts0\<rparr>"

definition db_lesson :: db where
  "db_lesson = db_subsection\<lparr>content := [lesson], seq_content := 1\<rparr>"

definition db_orphan :: db where
  "db_orphan = db_lesson\<lparr>subsections := [], sections := []\<rparr>"

text \<open>Ann after one call of \<^verbatim>\<open>update_referral_count\<close>.\<close>

definition db_ann_referred :: db where
  "db_ann_referred = empty_db\<lparr>users := [ann\<lparr>referral_count := 1\<rparr>]\<rparr>"

section \<open>Connections and single statements\<close>

lemma with_connection_single: "with_connection [Execute f, Commit] d = f d"
  by (cases "f d") (simp_all add: with_connection_def connect_def)

lemma fetchone_None_iff: "fetchone rows = None \<longleftrightarrow> rows = []"
  by (cases rows) (simp_all add: fetchone_def)

lemma get_user_None_iff: "get_user uid d = None \<longleftrightarrow> (\<forall>u \<in> set (users d). user_id u \<noteq> uid)"
  by (simp add: get_user_def fetchone_None_iff filter_empty_conv)

text \<open>An \<^verbatim>\<open>UPDATE ... WHERE user_id = ?\<close> that matches no row leaves the store as it is.\<close>

lemma update_missing_user:
  assumes "get_user uid d = None"
  shows "update_users_where_id uid f d = Inr d"
proof -
  have "map (\<lambda>u. if user_id u = uid then f u else u) (users d) = users d"
    using assms by (intro map_idI) (simp add: get_user_None_iff)
  then show ?thesis by (simp add: update_users_where_id_def)
qed

lemma fetchone_filter_map:
  assumes "\<And>x. P (g x) = P x"
  shows "fetchone (filter P (map g xs)) = map_option g (fetchone (filter P xs))"
  using assms by (induction xs) (simp_all add: fetchone_def)

text \<open>
  What \<^verbatim>\<open>get_user\<close> finds after an \<^verbatim>\<open>UPDATE ... WHERE user_id = ?\<close> whose
  \<^verbatim>\<open>SET\<close> clause keeps the id: the updated row for the id of the update, the old row
  for any other id.
\<close>

lemma get_user_after_update:
  assumes "\<And>x. user_id (f x) = user_id x"
  shows "get_user uid (d\<lparr>users := map (\<lambda>u. if user_id u = uid then f u else u) (users d)\<rparr>)
         = map_option f (get_user uid d)"
proof -
  let ?g = "\<lambda>u. if user_id u = uid then f u else u"
  have "fetchone (filter (\<lambda>u. user_id u = uid) (map ?g (users d)))
        = map_option ?g (fetchone (filter (\<lambda>u. user_id u = uid) (users d)))"
    by (rule fetchone_filter_map) (simp add: assms)
  moreover have "map_option ?g (fetchone (filter (\<lambda>u. user_id u = uid) xs))
        = map_option f (fetchone (filter (\<lambda>u. user_id u = uid) xs))" for xs
    by (induction xs) (simp_all add: fetchone_def)
  ultimately show ?thesis by (simp add: get_user_def)
qed

lemma get_other_user_after_update:
  assumes "\<And>x. user_id (f x) = user_id x" and "uid' \<noteq> uid"
  shows "get_user uid' (d\<lparr>users := map (\<lambda>u. if user_id u = uid then f u else u) (users d)\<rparr>)
         = get_user uid' d"
proof -
  let ?g = "\<lambda>u. if user_id u = uid then f u else u"
  have "fetchone (filter (\<lambda>u. user_id u = uid') (map ?g (users d)))
        = map_option ?g (fetchone (filter (\<lambda>u. user_id u = uid') (users d)))"
    by (rule fetchone_filter_map) (simp add: assms)
  moreover have "map_option ?g (fetchone (filter (\<lambda>u. user_id u = uid') xs))
        = fetchone (filter (\<lambda>u. user_id u = uid') xs)" for xs
    using assms(2) by (induction xs) (simp_all add: fetchone_def)
  ultimately show ?thesis by (simp add: get_user_def)
qed

lemma get_user_2_db_ann: "get_user 2 db_ann = None"
  by (simp add: get_user_def db_ann_def ann_def new_user_def fetchone_def)

section \<open>Mutations addressed to a user that does not exist\<close>

text \<open>
  \<^verbatim>\<open>activate_premium\<close> raises \<^verbatim>\<open>OverflowError\<close> when the duration or the expiry is
  out of range, and otherwise executes its \<^verbatim>\<open>UPDATE\<close>.
\<close>

lemma activate_premium_eq:
  "activate_premium isoformat now uid duration_days d =
     (if \<bar>or_default 30 duration_days\<bar> \<le> 999999999
         \<and> 0 \<le> now + timedelta_days (or_default 30 duration_days)
         \<and> now + timedelta_days (or_default 30 duration_days) \<le> datetime_max
      then Inr (d\<lparr>users := map (\<lambda>u. if user_id u = uid
             then u\<lparr>is_premium := True,
                    premium_expires_at :=
                      Some (isoformat (now + timedelta_days (or_default 30 duration_days)))\<rparr>
             else u) (users d)\<rparr>)
      else Inl OverflowError)"
  by (simp add: activate_premium_def timedelta_def datetime_add_def with_connection_single
      update_users_where_id_def)

text \<open>
  Claim C10, as the code has it. Each of the seven account mutations addressed by user
  id, called with an id that no row of \<^verbatim>\<open>users\<close> carries, changes no row of any table.
  Six of them (\<^verbatim>\<open>update_user_activity\<close>, \<^verbatim>\<open>revoke_premium\<close>,
  \<^verbatim>\<open>update_user_rating\<close>, \<^verbatim>\<open>update_words_learned\<close>, \<^verbatim>\<open>update_referral_count\<close>,
  \<^verbatim>\<open>reset_referral_count\<close>) return without raising and commit the store they
  started from. \<^verbatim>\<open>activate_premium\<close> does the same whenever the duration is at most
  999999999 days in magnitude and \<open>now\<close> plus the duration is a datetime between
  \<^verbatim>\<open>datetime.min\<close> and \<^verbatim>\<open>datetime.max\<close>; for any other duration it raises
  \<^verbatim>\<open>OverflowError\<close>, before the store is opened.
\<close>

theorem mutations_of_missing_user_change_nothing:
  assumes "get_user uid d = None"
  shows "update_user_activity uid activity_type ts d = Inr d
       \<and> revoke_premium uid d = Inr d
       \<and> update_user_rating uid points d = Inr d
       \<and> update_words_learned uid cnt d = Inr d
       \<and> update_referral_count uid d = Inr d
       \<and> reset_referral_count uid d = Inr d
       \<and> activate_premium isoformat now uid duration_days d =
            (if \<bar>or_default 30 duration_days\<bar> \<le> 999999999
                \<and> 0 \<le> now + timedelta_days (or_default 30 duration_days)
                \<and> now + timedelta_days (or_default 30 duration_days) \<le> datetime_max
             then Inr d else Inl OverflowError)"
  using assms
  by (simp add: update_user_activity_def activate_premium_def revoke_premium_def
      update_user_rating_def update_words_learned_def update_referral_count_def
      reset_referral_count_def with_connection_single update_missing_user
      timedelta_def datetime_add_def)

theorem mutations_of_missing_user_change_nothing_witness:
  "get_user 2 db_ann = None
   \<and> update_user_activity 2 None ts0 db_ann = Inr db_ann
   \<and> revoke_premium 2 db_ann = Inr db_ann
   \<and> update_user_rating 2 5 db_ann = Inr db_ann
   \<and> update_words_learned 2 (Some 3) db_ann = Inr db_ann
   \<and> update_referral_count 2 db_ann = Inr db_ann
   \<and> reset_referral_count 2 db_ann = Inr db_ann
   \<and> activate_premium demo_isoformat jan_01 2 (Some 30) db_ann = Inr db_ann"
  using get_user_2_db_ann
    mutations_of_missing_user_change_nothing [OF get_user_2_db_ann, of None ts0 5 "Some 3"
      demo_isoformat jan_01 "Some 30"]
  by (simp add: or_default_def timedelta_days_def datetime_max_def jan_01_def)

text \<open>
  Claim C10 as stated fails for \<^verbatim>\<open>activate_premium\<close>. There is no user 2; the call
  \<^verbatim>\<open>activate_premium(2, 3000000)\<close> on 2024-01-01 asks for an expiry after the year
  9999 and raises \<^verbatim>\<open>OverflowError\<close> instead of completing.
\<close>

theorem activate_premium_missing_user_raises:
  "get_user 2 db_ann = None
   \<and> activate_premium demo_isoformat jan_01 2 (Some 3000000) db_ann = Inl OverflowError"
  by (simp add: get_user_2_db_ann activate_premium_eq or_default_def timedelta_days_def
      datetime_max_def jan_01_def)

lemma get_user_1_db_ann: "get_user 1 db_ann = Some ann"
  by (simp add: get_user_def db_ann_def ann_def new_user_def fetchone_def)

section \<open>Referral edges and the referral counter\<close>

lemma add_referral_eq:
  "add_referral a b ts d =
     Inr (d\<lparr>referrals := referrals d @
               [\<lparr>ref_id = seq_referrals d + 1, referrer_id = a,
                 referred_id = b, ref_created_at = ts\<rparr>],
             seq_referrals := seq_referrals d + 1\<rparr>)"
  by (simp add: add_referral_def with_connection_single insert_referral_def)

lemma update_referral_count_eq:
  "update_referral_count a d =
     Inr (d\<lparr>users := map (\<lambda>u. if user_id u = a
                                 then u\<lparr>referral_count := referral_count u + 1\<rparr>
                                 else u) (users d)\<rparr>)"
  by (simp add: update_referral_count_def with_connection_single update_users_where_id_def)

section \<open>Recording a quiz attempt\<close>

lemma record_quiz_attempt_eq:
  "record_quiz_attempt uid q s t ts d =
     Inr (d\<lparr>quiz_attempts_table := quiz_attempts_table d @
               [\<lparr>qa_id = seq_quiz_attempts d + 1, qa_user_id = uid, qa_quiz_id = q,
                 qa_score = s, qa_total_questions = t, qa_completed_at = ts\<rparr>],
             seq_quiz_attempts := seq_quiz_attempts d + 1,
             users := map (\<lambda>u. if user_id u = uid
                                 then u\<lparr>quiz_score_total := quiz_score_total u + s,
                                        quiz_attempts := quiz_attempts u + 1\<rparr>
                                 else u) (users d)\<rparr>)"
  by (simp add: record_quiz_attempt_def record_quiz_attempt_actions_def with_connection_def
      connect_def insert_quiz_attempt_def update_users_where_id_def)

text \<open>
  The committed store after the first \<open>k\<close> of the three actions: nothing of the block
  before the commit has been performed, all of it afterwards.
\<close>

lemma durable_after_record_quiz_attempt:
  "durable_after k (record_quiz_attempt_actions uid q s t ts) d =
     (if k < 3 then d
      else d\<lparr>quiz_attempts_table := quiz_attempts_table d @
               [\<lparr>qa_id = seq_quiz_attempts d + 1, qa_user_id = uid, qa_quiz_id = q,
                 qa_score = s, qa_total_questions = t, qa_completed_at = ts\<rparr>],
             seq_quiz_attempts := seq_quiz_attempts d + 1,
             users := map (\<lambda>u. if user_id u = uid
                                 then u\<lparr>quiz_score_total := quiz_score_total u + s,
                                        quiz_attempts := quiz_attempts u + 1\<rparr>
                                 else u) (users d)\<rparr>)"
proof -
  consider "k = 0" | "k = 1" | "k = 2" | "3 \<le> k" by linarith
  then show ?thesis
  proof cases
    case 1
    then show ?thesis by (simp add: durable_after_def connect_def)
  next
    case 2
    then show ?thesis
      by (simp add: durable_after_def connect_def record_quiz_attempt_actions_def
          insert_quiz_attempt_def)
  next
    case 3
    have "take 2 (record_quiz_attempt_actions uid q s t ts)
          = [Execute (insert_quiz_attempt uid q s t ts),
             Execute (update_users_where_id uid
               (\<lambda>u. u\<lparr>quiz_score_total := quiz_score_total u + s,
                      quiz_attempts := quiz_attempts u + 1\<rparr>))]"
      by (simp add: record_quiz_attempt_actions_def numeral_2_eq_2)
    with 3 show ?thesis
      by (simp add: durable_after_def connect_def insert_quiz_attempt_def
          update_users_where_id_def)
  next
    case 4
    then have "take k (record_quiz_attempt_actions uid q s t ts)
               = record_quiz_attempt_actions uid q s t ts"
      by (simp add: record_quiz_attempt_actions_def)
    with 4 show ?thesis
      by (simp add: durable_after_def connect_def record_quiz_attempt_actions_def
          insert_quiz_attempt_def update_users_where_id_def)
  qed
qed

text \<open>
  Claim C3. For a user \<open>uid\<close> with row \<open>u\<close>, a quiz \<open>q\<close>, a score \<open>s\<close> and a total
  \<open>t\<close>: \<^verbatim>\<open>record_quiz_attempt\<close> returns without raising; the attempts table is the
  old one with exactly one row \<open>(uid, q, s, t)\<close> appended; the row of \<open>uid\<close> has
  \<^verbatim>\<open>quiz_score_total\<close> increased by \<open>s\<close> and \<^verbatim>\<open>quiz_attempts\<close> by 1. The insertion and
  the counter update are one unit of work: wherever the block is cut short, after \<open>k\<close>
  of its actions, the committed store is either the store from before the call (neither
  write) or the final store (both writes), never one with only one of the two.
\<close>

theorem record_quiz_attempt_appends_and_counts_atomically:
  assumes "get_user uid d = Some u"
  shows "\<exists>d'. record_quiz_attempt uid q s t ts d = Inr d'
           \<and> quiz_attempts_table d' = quiz_attempts_table d @
                [\<lparr>qa_id = seq_quiz_attempts d + 1, qa_user_id = uid, qa_quiz_id = q,
                  qa_score = s, qa_total_questions = t, qa_completed_at = ts\<rparr>]
           \<and> get_user uid d' = Some (u\<lparr>quiz_score_total := quiz_score_total u + s,
                                        quiz_attempts := quiz_attempts u + 1\<rparr>)
           \<and> (\<forall>k. durable_after k (record_quiz_attempt_actions uid q s t ts) d
                    = (if k < 3 then d else d'))"
proof -
  let ?f = "\<lambda>u. u\<lparr>quiz_score_total := quiz_score_total u + s,
                    quiz_attempts := quiz_attempts u + 1\<rparr>"
  have "get_user uid (d\<lparr>users := map (\<lambda>u. if user_id u = uid then ?f u else u) (users d)\<rparr>)
        = map_option ?f (get_user uid d)"
    by (rule get_user_after_update) simp
  then have g: "get_user uid (d\<lparr>quiz_attempts_table := qs, seq_quiz_attempts := n,
                  users := map (\<lambda>u. if user_id u = uid then ?f u else u) (users d)\<rparr>)
        = Some (?f u)" for qs n
    using assms by (simp add: get_user_def)
  show ?thesis
    by (simp add: record_quiz_attempt_eq durable_after_record_quiz_attempt g)
qed

theorem record_quiz_attempt_appends_and_counts_atomically_witness:
  "get_user 1 db_ann = Some ann
   \<and> (\<exists>d'. record_quiz_attempt 1 4 7 10 ts0 db_ann = Inr d'
         \<and> quiz_attempts_table d' =
              [\<lparr>qa_id = 1, qa_user_id = 1, qa_quiz_id = 4, qa_score = 7,
                qa_total_questions = 10, qa_completed_at = ts0\<rparr>]
         \<and> get_user 1 d' = Some (ann\<lparr>quiz_score_total := 7, quiz_attempts := 1\<rparr>)
         \<and> durable_after 1 (record_quiz_attempt_actions 1 4 7 10 ts0) db_ann = db_ann
         \<and> durable_after 2 (record_quiz_attempt_actions 1 4 7 10 ts0) db_ann = db_ann
         \<and> durable_after 3 (record_quiz_attempt_actions 1 4 7 10 ts0) db_ann = d')"
proof -
  from record_quiz_attempt_appends_and_counts_atomically [OF get_user_1_db_ann, of 4 7 10 ts0]
  obtain d' where r: "record_quiz_attempt 1 4 7 10 ts0 db_ann = Inr d'"
    and q: "quiz_attempts_table d' = quiz_attempts_table db_ann @
              [\<lparr>qa_id = seq_quiz_attempts db_ann + 1, qa_user_id = 1, qa_quiz_id = 4,
                qa_score = 7, qa_total_questions = 10, qa_completed_at = ts0\<rparr>]"
    and g: "get_user 1 d' = Some (ann\<lparr>quiz_score_total := quiz_score_total ann + 7,
                                        quiz_attempts := quiz_attempts ann + 1\<rparr>)"
    and k: "\<And>k. durable_after k (record_quiz_attempt_actions 1 4 7 10 ts0) db_ann
                 = (if k < 3 then db_ann else d')"
    by blast
  have "quiz_attempts_table d' =
          [\<lparr>qa_id = 1, qa_user_id = 1, qa_quiz_id = 4, qa_score = 7,
            qa_total_questions = 10, qa_completed_at = ts0\<rparr>]"
    using q by (simp add: db_ann_def empty_db_def)
  moreover have "get_user 1 d' = Some (ann\<lparr>quiz_score_total := 7, quiz_attempts := 1\<rparr>)"
    using g by (simp add: ann_def new_user_def)
  ultimately show ?thesis
    using get_user_1_db_ann r k [of 1] k [of 2] k [of 3] by simp
qed

section \<open>The premium window\<close>

lemma is_premium_active_get_user:
  "is_premium_active fromisoformat now uid d =
     (case get_user uid d of
        None \<Rightarrow> Inr False
      | Some u \<Rightarrow>
          if \<not> is_premium u then Inr False
          else (case premium_expires_at u of
                  None \<Rightarrow> Inr False
                | Some s \<Rightarrow>
                    (case (case fromisoformat s of
                             Inl e \<Rightarrow> Inl e
                           | Inr expires_at \<Rightarrow> dt_less (Naive now) expires_at) of
                       Inr b \<Rightarrow> Inr b
                     | Inl e \<Rightarrow> if e = ValueError \<or> e = TypeError then Inr False else Inl e)))"
  by (simp add: is_premium_active_def get_user_def)

text \<open>
  Claim C4. \<^verbatim>\<open>datetime.fromisoformat\<close> raises \<^verbatim>\<open>ValueError\<close> on a text it cannot
  parse and \<^verbatim>\<open>TypeError\<close> on a value that is no text, and nothing else: that is the
  hypothesis on the parameter \<open>fromisoformat\<close>. Then \<^verbatim>\<open>is_premium_active\<close> never
  raises, and it returns \<^verbatim>\<open>True\<close> if and only if the user exists, the premium flag is
  set, an expiry is stored, and the stored expiry parses to a datetime that is strictly
  later than the evaluation time \<open>now\<close>. The evaluation time is naive, so the expiry is
  later than it only when it is naive too: an expiry with a UTC offset cannot be compared
  with \<open>now\<close>, the comparison raises \<^verbatim>\<open>TypeError\<close> inside the same \<^verbatim>\<open>try\<close>, and the
  result is \<^verbatim>\<open>False\<close>. When the stored expiry fails to parse the result is \<^verbatim>\<open>False\<close>
  and no exception leaves the function.
\<close>

theorem is_premium_active_iff:
  assumes "\<forall>s e. fromisoformat s = Inl e \<longrightarrow> e = ValueError \<or> e = TypeError"
  shows "is_premium_active fromisoformat now uid d
         = Inr (\<exists>u s t. get_user uid d = Some u \<and> is_premium u
                  \<and> premium_expires_at u = Some s
                  \<and> fromisoformat s = Inr (Naive t) \<and> now < t)
       \<and> (\<forall>u s e. get_user uid d = Some u \<and> premium_expires_at u = Some s
                  \<and> fromisoformat s = Inl e
             \<longrightarrow> is_premium_active fromisoformat now uid d = Inr False)"
proof (cases "get_user uid d")
  case None
  then show ?thesis by (simp add: is_premium_active_get_user)
next
  case (Some u)
  show ?thesis
  proof (cases "premium_expires_at u")
    case None
    with Some show ?thesis by (simp add: is_premium_active_get_user)
  next
    case exp: (Some s)
    show ?thesis
    proof (cases "fromisoformat s")
      case (Inl e)
      with assms have "e = ValueError \<or> e = TypeError" by blast
      with Some exp Inl show ?thesis by (auto simp add: is_premium_active_get_user)
    next
      case (Inr dt)
      with Some exp show ?thesis
        by (cases dt) (auto simp add: is_premium_active_get_user)
    qed
  qed
qed

lemma demo_fromisoformat_errors:
  "\<forall>s e. demo_fromisoformat s = Inl e \<longrightarrow> e = ValueError \<or> e = TypeError"
  by (simp add: demo_fromisoformat_def)

lemma get_user_1_db_ann_premium:
  "get_user 1 db_ann_premium
   = Some (ann\<lparr>is_premium := True, premium_expires_at := Some ''2024-01-31T00:00:00''\<rparr>)"
  by (simp add: get_user_def db_ann_premium_def ann_def new_user_def fetchone_def)

theorem is_premium_active_iff_witness:
  "is_premium_active demo_fromisoformat jan_01 1 db_ann_premium = Inr True
   \<and> is_premium_active demo_fromisoformat jan_31 1 db_ann_premium = Inr False
   \<and> is_premium_active demo_fromisoformat jan_01 2 db_ann_premium = Inr False"
proof -
  note iff = is_premium_active_iff [OF demo_fromisoformat_errors, THEN conjunct1]
  have a: "is_premium_active demo_fromisoformat jan_01 1 db_ann_premium = Inr True"
    unfolding iff [of jan_01 1 db_ann_premium]
    by (simp add: get_user_1_db_ann_premium demo_fromisoformat_def jan_01_def jan_31_def)
  have b: "is_premium_active demo_fromisoformat jan_31 1 db_ann_premium = Inr False"
    unfolding iff [of jan_31 1 db_ann_premium]
    by (simp add: get_user_1_db_ann_premium demo_fromisoformat_def jan_01_def jan_31_def)
  have c: "is_premium_active demo_fromisoformat jan_01 2 db_ann_premium = Inr False"
    unfolding iff [of jan_01 2 db_ann_premium]
    by (simp add: get_user_def db_ann_premium_def ann_def new_user_def fetchone_def)
  from a b c show ?thesis by simp
qed

text \<open>
  Claim C5, as the code has it. For an existing user \<open>uid\<close> with row \<open>u\<close>, an
  activation at time \<open>start\<close> and a duration of \<open>n\<close> days such that the duration and
  the expiry \<open>start + n\<close> days are in the range of \<^verbatim>\<open>timedelta\<close> and \<^verbatim>\<open>datetime\<close>,
  and where \<^verbatim>\<open>fromisoformat\<close> reads back the text \<^verbatim>\<open>isoformat\<close> wrote for the
  expiry: \<^verbatim>\<open>activate_premium\<close> sets the flag and stores the expiry \<open>start + n\<close> days,
  whatever expiry the row held before (the old expiry does not enter the new one). From
  then on \<^verbatim>\<open>is_premium_active\<close> at an evaluation time \<open>T\<close> is \<^verbatim>\<open>True\<close> exactly when
  \<open>T\<close> is before \<open>start + n\<close> days: true at every time before the \<open>n\<close> days have
  elapsed, false at every time from then on. For a duration of at least one day it is
  true at the activation time itself, that is immediately afterwards.
\<close>

theorem activate_premium_active_until_expiry:
  assumes "get_user uid d = Some u"
    and "\<bar>n\<bar> \<le> 999999999"
    and "0 \<le> start + timedelta_days n"
    and "start + timedelta_days n \<le> datetime_max"
    and "fromisoformat (isoformat (start + timedelta_days n))
         = Inr (Naive (start + timedelta_days n))"
  shows "\<exists>d'. activate_premium isoformat start uid (Some n) d = Inr d'
           \<and> get_user uid d' =
               Some (u\<lparr>is_premium := True,
                       premium_expires_at := Some (isoformat (start + timedelta_days n))\<rparr>)
           \<and> (\<forall>T. is_premium_active fromisoformat T uid d'
                     = Inr (T < start + timedelta_days n))
           \<and> (0 < n \<longrightarrow> is_premium_active fromisoformat start uid d' = Inr True)"
proof -
  let ?f = "\<lambda>u. u\<lparr>is_premium := True,
                    premium_expires_at := Some (isoformat (start + timedelta_days n))\<rparr>"
  let ?d' = "d\<lparr>users := map (\<lambda>u. if user_id u = uid then ?f u else u) (users d)\<rparr>"
  have run: "activate_premium isoformat start uid (Some n) d = Inr ?d'"
    using assms(2,3,4) by (simp add: activate_premium_eq or_default_def)
  have "get_user uid ?d' = map_option ?f (get_user uid d)"
    by (rule get_user_after_update) simp
  with assms(1) have g: "get_user uid ?d' = Some (?f u)" by simp
  have act: "is_premium_active fromisoformat T uid ?d' = Inr (T < start + timedelta_days n)"
    for T
    using assms(5) by (simp add: is_premium_active_get_user g)
  have "0 < n \<Longrightarrow> start < start + timedelta_days n"
    by (simp add: timedelta_days_def)
  with act have "0 < n \<longrightarrow> is_premium_active fromisoformat start uid ?d' = Inr True"
    by simp
  with run g act show ?thesis by blast
qed

lemma demo_roundtrip:
  "demo_fromisoformat (demo_isoformat (jan_01 + timedelta_days 30))
   = Inr (Naive (jan_01 + timedelta_days 30))"
  by (simp add: demo_fromisoformat_def demo_isoformat_def timedelta_days_def jan_01_def
      jan_31_def)

lemma activate_premium_db_ann:
  "activate_premium demo_isoformat jan_01 1 (Some 30) db_ann = Inr db_ann_premium"
  by (simp add: activate_premium_eq or_default_def db_ann_def db_ann_premium_def ann_def
      new_user_def empty_db_def demo_isoformat_def timedelta_days_def datetime_max_def
      jan_01_def jan_31_def)

theorem activate_premium_active_until_expiry_witness:
  "get_user 1 db_ann = Some ann
   \<and> activate_premium demo_isoformat jan_01 1 (Some 30) db_ann = Inr db_ann_premium
   \<and> is_premium_active demo_fromisoformat jan_01 1 db_ann_premium = Inr True
   \<and> is_premium_active demo_fromisoformat (jan_31 - 1) 1 db_ann_premium = Inr True
   \<and> is_premium_active demo_fromisoformat jan_31 1 db_ann_premium = Inr False
   \<and> is_premium_active demo_fromisoformat (jan_31 + 1) 1 db_ann_premium = Inr False"
proof -
  have r1: "\<bar>30::int\<bar> \<le> 999999999" by simp
  have r2: "0 \<le> jan_01 + timedelta_days 30"
    by (simp add: jan_01_def timedelta_days_def)
  have r3: "jan_01 + timedelta_days 30 \<le> datetime_max"
    by (simp add: jan_01_def timedelta_days_def datetime_max_def)
  from activate_premium_active_until_expiry [where fromisoformat = demo_fromisoformat
      and isoformat = demo_isoformat and start = jan_01 and n = 30,
      OF get_user_1_db_ann r1 r2 r3 demo_roundtrip]
  obtain d' where d': "activate_premium demo_isoformat jan_01 1 (Some 30) db_ann = Inr d'"
    and act: "\<And>T. is_premium_active demo_fromisoformat T 1 d'
                  = Inr (T < jan_01 + timedelta_days 30)"
    by blast
  from d' have eq: "d' = db_ann_premium" by (simp add: activate_premium_db_ann)
  show ?thesis
    using get_user_1_db_ann activate_premium_db_ann act [unfolded eq]
    by (simp add: timedelta_days_def jan_01_def jan_31_def)
qed

text \<open>
  Claim C5 as stated fails. An activation with a duration of 0 days sets the flag and
  stores the activation time as the expiry, and \<^verbatim>\<open>is_premium_active\<close> at that same
  time is \<^verbatim>\<open>False\<close>: the user is not active immediately afterwards. An activation with
  a duration of 3000000 days asks for an expiry after the year 9999 and raises
  \<^verbatim>\<open>OverflowError\<close>: nothing is set.
\<close>

theorem activate_premium_zero_days_is_inactive:
  "get_user 1 db_ann = Some ann
   \<and> activate_premium demo_isoformat jan_01 1 (Some 0) db_ann = Inr db_ann_expired
   \<and> is_premium_active demo_fromisoformat jan_01 1 db_ann_expired = Inr False
   \<and> activate_premium demo_isoformat jan_01 1 (Some 3000000) db_ann = Inl OverflowError"
proof -
  have zero: "activate_premium demo_isoformat jan_01 1 (Some 0) db_ann = Inr db_ann_expired"
    by (simp add: activate_premium_eq or_default_def db_ann_def db_ann_expired_def ann_def
        new_user_def empty_db_def demo_isoformat_def timedelta_days_def datetime_max_def
        jan_01_def jan_31_def)
  have inactive: "is_premium_active demo_fromisoformat jan_01 1 db_ann_expired = Inr False"
    by (simp add: is_premium_active_def db_ann_expired_def ann_def new_user_def
        empty_db_def fetchone_def demo_fromisoformat_def jan_01_def)
  have raises: "activate_premium demo_isoformat jan_01 1 (Some 3000000) db_ann
                = Inl OverflowError"
    by (simp add: activate_premium_eq or_default_def timedelta_days_def datetime_max_def
        jan_01_def)
  from get_user_1_db_ann zero inactive raises show ?thesis by simp
qed

section \<open>The leaderboard\<close>

lemma leaderboard_key_le_iff:
  "leaderboard_key x \<le> leaderboard_key y \<longleftrightarrow>
     rating_score y < rating_score x
     \<or> (rating_score x = rating_score y
        \<and> (words_learned y < words_learned x
           \<or> (words_learned x = words_learned y \<and> quiz_score_total y \<le> quiz_score_total x)))"
  by (auto simp add: leaderboard_key_def)

lemma sorted_wrt_sql_limit: "sorted_wrt R xs \<Longrightarrow> sorted_wrt R (sql_limit n xs)"
  by (simp add: sql_limit_def)

lemma set_sql_limit: "set (sql_limit n xs) \<subseteq> set xs"
  by (auto simp add: sql_limit_def dest: in_set_takeD)

lemma length_sql_limit: "0 \<le> n \<Longrightarrow> int (length (sql_limit n xs)) \<le> n"
  by (simp add: sql_limit_def)

text \<open>A negative limit does not bound the result: every eligible user is returned.\<close>

lemma get_leaderboard_negative_limit:
  "n < 0 \<Longrightarrow> get_leaderboard (Some n) d
     = map leaderboard_row (sort_key leaderboard_key [u \<leftarrow> users d. 0 < rating_score u])"
  by (simp add: get_leaderboard_def or_default_def sql_limit_def)

text \<open>
  Claim C6. A limit is a number of rows, \<open>0 \<le> n\<close> (SQLite reads a negative
  \<^verbatim>\<open>LIMIT\<close> as no limit at all, and no list has fewer than zero rows). For every such
  limit \<^verbatim>\<open>get_leaderboard(n)\<close> returns at most \<open>n\<close> rows; every row has a rating
  strictly greater than zero; the rows are ordered by rating descending, ties by words
  learned descending, then by cumulative quiz score descending; they are the first \<open>n\<close>
  rows of a ranking, in that order, of all users with a positive rating; and the call
  without a limit is the call with limit 10. A row is
  \<^verbatim>\<open>(user_id, first_name, username, rating_score, words_learned, quiz_score_total)\<close>.
\<close>

theorem get_leaderboard_top_n:
  assumes "0 \<le> n"
  shows "int (length (get_leaderboard (Some n) d)) \<le> n
       \<and> (\<forall>(uid, fname, uname, r, w, q) \<in> set (get_leaderboard (Some n) d). 0 < r)
       \<and> sorted_wrt
            (\<lambda>(uid1, fname1, uname1, r1, w1, q1) (uid2, fname2, uname2, r2, w2, q2).
                r2 < r1 \<or> (r1 = r2 \<and> (w2 < w1 \<or> (w1 = w2 \<and> q2 \<le> q1))))
            (get_leaderboard (Some n) d)
       \<and> (\<exists>ranking. mset ranking = mset [u \<leftarrow> users d. 0 < rating_score u]
              \<and> sorted_wrt
                   (\<lambda>x y. rating_score y < rating_score x
                      \<or> (rating_score x = rating_score y
                         \<and> (words_learned y < words_learned x
                            \<or> (words_learned x = words_learned y
                               \<and> quiz_score_total y \<le> quiz_score_total x))))
                   ranking
              \<and> get_leaderboard (Some n) d = map leaderboard_row (take (nat n) ranking))
       \<and> get_leaderboard None d = get_leaderboard (Some 10) d"
proof -
  let ?eligible = "[u \<leftarrow> users d. 0 < rating_score u]"
  let ?ranking = "sort_key leaderboard_key ?eligible"
  let ?R = "\<lambda>(uid1::int, fname1::string, uname1::string, r1::real, w1::int, q1::int)
             (uid2::int, fname2::string, uname2::string, r2::real, w2::int, q2::int).
                r2 < r1 \<or> (r1 = r2 \<and> (w2 < w1 \<or> (w1 = w2 \<and> q2 \<le> q1)))"
  have eq: "get_leaderboard (Some n) d = map leaderboard_row (sql_limit n ?ranking)"
    by (simp add: get_leaderboard_def or_default_def)
  have len: "int (length (get_leaderboard (Some n) d)) \<le> n"
    using assms by (simp add: eq length_sql_limit)
  have pos: "\<forall>(uid, fname, uname, r, w, q) \<in> set (get_leaderboard (Some n) d). 0 < r"
    using set_sql_limit [of n ?ranking] by (auto simp add: eq leaderboard_row_def)
  have "sorted (map leaderboard_key ?ranking)" by simp
  then have ranked: "sorted_wrt (\<lambda>x y. leaderboard_key x \<le> leaderboard_key y) ?ranking"
    by (simp only: sorted_map)
  then have "sorted_wrt (\<lambda>x y. leaderboard_key x \<le> leaderboard_key y) (sql_limit n ?ranking)"
    by (rule sorted_wrt_sql_limit)
  then have "sorted_wrt (\<lambda>x y. ?R (leaderboard_row x) (leaderboard_row y))
               (sql_limit n ?ranking)"
    by (rule sorted_wrt_mono_rel [rotated])
       (simp add: leaderboard_key_le_iff leaderboard_row_def)
  then have srt: "sorted_wrt ?R (get_leaderboard (Some n) d)"
    by (simp only: eq sorted_wrt_map)
  have "mset ?ranking = mset ?eligible" by simp
  moreover have "sorted_wrt
      (\<lambda>x y. rating_score y < rating_score x
         \<or> (rating_score x = rating_score y
            \<and> (words_learned y < words_learned x
               \<or> (words_learned x = words_learned y
                  \<and> quiz_score_total y \<le> quiz_score_total x))))
      ?ranking"
    using ranked by (simp only: leaderboard_key_le_iff)
  moreover have "get_leaderboard (Some n) d = map leaderboard_row (take (nat n) ?ranking)"
    using assms by (simp add: eq sql_limit_def)
  ultimately have top: "\<exists>ranking. mset ranking = mset ?eligible
      \<and> sorted_wrt
           (\<lambda>x y. rating_score y < rating_score x
              \<or> (rating_score x = rating_score y
                 \<and> (words_learned y < words_learned x
                    \<or> (words_learned x = words_learned y
                       \<and> quiz_score_total y \<le> quiz_score_total x))))
           ranking
      \<and> get_leaderboard (Some n) d = map leaderboard_row (take (nat n) ranking)"
    by blast
  have dflt: "get_leaderboard None d = get_leaderboard (Some 10) d"
    by (simp add: get_leaderboard_def or_default_def)
  from len pos srt top dflt show ?thesis by blast
qed

lemma get_leaderboard_db_board:
  "get_leaderboard (Some 3) db_board =
     [(2, ''Bob'', [], 5, 20, 0), (1, ''Ann'', [], 5, 10, 0), (3, ''Cho'', [], 3, 5, 0)]"
  by (simp add: get_leaderboard_def db_board_def board_user_def new_user_def empty_db_def
      or_default_def sql_limit_def leaderboard_key_def leaderboard_row_def or_empty_def)

theorem get_leaderboard_top_n_witness:
  "(0::int) \<le> 3
   \<and> int (length (get_leaderboard (Some 3) db_board)) \<le> 3
   \<and> get_leaderboard (Some 3) db_board =
       [(2, ''Bob'', [], 5, 20, 0), (1, ''Ann'', [], 5, 10, 0), (3, ''Cho'', [], 3, 5, 0)]
   \<and> get_leaderboard None db_board = get_leaderboard (Some 10) db_board"
proof -
  have h: "(0::int) \<le> 3" by simp
  from get_leaderboard_top_n [OF h, of db_board]
  have "int (length (get_leaderboard (Some 3) db_board)) \<le> 3"
    and "get_leaderboard None db_board = get_leaderboard (Some 10) db_board"
    by blast+
  with h get_leaderboard_db_board show ?thesis by simp
qed

section \<open>Creating a user\<close>

lemma create_user_eq:
  "create_user rnd uid uname fname lname ref_by ts d =
     insert_or_ignore_user (new_user rnd uid uname fname lname ref_by ts) d"
  by (simp add: create_user_def with_connection_single)

lemma get_user_by_referral_code_None_iff:
  "get_user_by_referral_code code d = None
   \<longleftrightarrow> (\<forall>u \<in> set (users d). referral_code u \<noteq> code)"
  by (simp add: get_user_by_referral_code_def fetchone_None_iff filter_empty_conv)

lemma create_user_fresh:
  assumes "get_user uid d = None"
    and "get_user_by_referral_code (referral_code_of rnd) d = None"
  shows "create_user rnd uid uname fname lname ref_by ts d
         = Inr (d\<lparr>users := users d @ [new_user rnd uid uname fname lname ref_by ts]\<rparr>)"
  using assms
  by (simp add: create_user_eq insert_or_ignore_user_def new_user_def
      get_user_None_iff get_user_by_referral_code_None_iff)

lemma referral_code_of_7: "referral_code_of 7 = ''REF000007''"
  by code_simp

lemma referral_code_of_8: "referral_code_of 8 = ''REF000008''"
  by code_simp

text \<open>
  What one call does, exactly: the row is skipped when a row with the id exists or when
  a row holds the drawn code, and appended otherwise. There is one draw and one
  statement; nothing is retried and nothing is raised.
\<close>

lemma create_user_outcome:
  "create_user rnd uid uname fname lname ref_by ts d =
     (if get_user uid d \<noteq> None \<or> get_user_by_referral_code (referral_code_of rnd) d \<noteq> None
      then Inr d
      else Inr (d\<lparr>users := users d @ [new_user rnd uid uname fname lname ref_by ts]\<rparr>))"
  by (auto simp add: create_user_eq insert_or_ignore_user_def new_user_def
      get_user_None_iff get_user_by_referral_code_None_iff)

text \<open>
  Claim C2 at the input where the code departs from it. Ann was created with the code
  drawn as 7. A call for the new id 2 that draws 7 again collides with Ann's code: the
  call returns without raising, the store is unchanged, and there is no row for user 2.
  The collision was not surfaced, but nothing was retried and the new user was dropped.
\<close>

theorem create_user_collision_drops_user:
  "create_user 7 1 (Some ''ann'') ''Ann'' None None ts0 empty_db = Inr db_ann
   \<and> get_user 2 db_ann = None
   \<and> get_user_by_referral_code (referral_code_of 7) db_ann = Some ann
   \<and> create_user 7 2 None ''Bob'' None None ts0 db_ann = Inr db_ann"
  by (simp add: create_user_eq insert_or_ignore_user_def get_user_by_referral_code_def
      get_user_def db_ann_def ann_def new_user_def fetchone_def empty_db_def)

subsection \<open>Creating a user twice\<close>

text \<open>A call for an id that has a row changes nothing, whatever code it draws.\<close>

lemma create_user_existing_is_noop:
  assumes "get_user uid d = Some u"
  shows "create_user rnd uid uname fname lname ref_by ts d = Inr d"
proof -
  from assms have "\<exists>u \<in> set (users d). user_id u = uid"
    using get_user_None_iff [of uid d] by auto
  then show ?thesis
    by (simp add: create_user_eq insert_or_ignore_user_def new_user_def)
qed

text \<open>
  When the first call for a new id draws a code nobody holds, it inserts the row, and a
  second call for the same id leaves the store, with its one row for the id, as it is.
\<close>

lemma create_user_inserted_then_noop:
  assumes "get_user uid d = None"
    and "get_user_by_referral_code (referral_code_of rnd) d = None"
  shows "\<exists>d'. create_user rnd uid uname fname lname ref_by ts d = Inr d'
           \<and> length [u \<leftarrow> users d'. user_id u = uid] = 1
           \<and> get_user uid d' = Some (new_user rnd uid uname fname lname ref_by ts)
           \<and> create_user rnd' uid uname' fname' lname' ref_by' ts' d' = Inr d'"
proof -
  let ?r = "new_user rnd uid uname fname lname ref_by ts"
  let ?d' = "d\<lparr>users := users d @ [?r]\<rparr>"
  have run: "create_user rnd uid uname fname lname ref_by ts d = Inr ?d'"
    using assms by (rule create_user_fresh)
  have none: "[u \<leftarrow> users d. user_id u = uid] = []"
    using assms(1) by (simp add: get_user_def fetchone_None_iff)
  have one: "length [u \<leftarrow> users ?d'. user_id u = uid] = 1"
    by (simp add: none new_user_def)
  have g: "get_user uid ?d' = Some ?r"
    by (simp add: get_user_def none fetchone_def new_user_def)
  from g have "create_user rnd' uid uname' fname' lname' ref_by' ts' ?d' = Inr ?d'"
    by (rule create_user_existing_is_noop)
  with run one g show ?thesis by blast
qed

text \<open>
  Claim C7 at the input where the code departs from it. Ann and Bob hold the codes
  drawn as 7 and 8. Two calls for the new id 3, the first drawing 7 and the second
  drawing 8, both collide on the referral code: both return without raising, both leave
  the store unchanged, and there are zero rows for id 3 afterwards, not one.
\<close>

theorem create_user_twice_may_leave_no_row:
  "get_user 3 db_ann_bob = None
   \<and> create_user 7 3 None ''Cho'' None None ts0 db_ann_bob = Inr db_ann_bob
   \<and> create_user 8 3 None ''Cho'' None None ts0 db_ann_bob = Inr db_ann_bob
   \<and> length [u \<leftarrow> users db_ann_bob. user_id u = 3] = 0"
  by (simp add: create_user_eq insert_or_ignore_user_def get_user_def db_ann_bob_def ann_def
      bob_def new_user_def fetchone_def empty_db_def)

section \<open>Deleting a section\<close>

lemma delete_section_eq:
  "delete_section sid d =
     Inr (d\<lparr>content := [c \<leftarrow> content d. c_section_id c \<noteq> sid],
           subsections := [s \<leftarrow> subsections d. sub_section_id s \<noteq> sid],
           sections := [s \<leftarrow> sections d. sec_id s \<noteq> sid]\<rparr>)"
  by (simp add: delete_section_def delete_section_actions_def with_connection_def connect_def
      delete_content_where_section_def delete_subsections_where_section_def
      delete_sections_where_id_def)

text \<open>
  What \<^verbatim>\<open>delete_section\<close> does remove: the section, its subsections, and the content
  whose own \<^verbatim>\<open>section_id\<close> is the section.
\<close>

lemma delete_section_removes:
  assumes "delete_section sid d = Inr d'"
  shows "(\<forall>s \<in> set (sections d'). sec_id s \<noteq> sid)
       \<and> (\<forall>s \<in> set (subsections d'). sub_section_id s \<noteq> sid)
       \<and> (\<forall>c \<in> set (content d'). c_section_id c \<noteq> sid)"
  using assms by (auto simp add: delete_section_eq)

text \<open>
  What it keeps: every content row with another \<^verbatim>\<open>section_id\<close>, whatever subsection
  the row belongs to.
\<close>

lemma delete_section_keeps_content_of_other_section_id:
  assumes "delete_section sid d = Inr d'"
    and "c \<in> set (content d)" and "c_section_id c \<noteq> sid"
  shows "c \<in> set (content d')"
  using assms by (auto simp add: delete_section_eq)

text \<open>
  Claim C1 at the input where the code departs from it. Section 1 is created, then its
  subsection 1, then a content item under subsection 1 with \<^verbatim>\<open>section_id = 0\<close>.
  \<^verbatim>\<open>delete_section(1)\<close> removes the section and the subsection and leaves the content
  item in the table: a content row whose \<^verbatim>\<open>subsection_id\<close> refers to a subsection of
  the deleted section survives the call.
\<close>

theorem delete_section_leaves_content_of_its_subsections:
  "create_section ''Grammar'' ''Basics'' (Some ''korean'') None None ts0 empty_db
     = Inr (1, db_section)
   \<and> create_subsection 1 ''Verbs'' ''Verb forms'' None ts0 db_section = Inr (1, db_subsection)
   \<and> add_content 0 1 ''Lesson 1'' ''First lesson'' ''text'' None (Some ''annyeong'') None ts0
        db_subsection = Inr (1, db_lesson)
   \<and> delete_section 1 db_lesson = Inr db_orphan
   \<and> sections db_orphan = [] \<and> subsections db_orphan = []
   \<and> content db_orphan = [lesson] \<and> c_subsection_id lesson = 1"
  by (simp add: create_section_def create_subsection_def add_content_def with_connection_single
      insert_section_def insert_subsection_def insert_content_def or_default_def
      delete_section_eq db_section_def db_subsection_def db_lesson_def db_orphan_def
      lesson_def empty_db_def)

section \<open>Listing sections\<close>

text \<open>The first column of a section row is its id, an \<^verbatim>\<open>int\<close>: \<^verbatim>\<open>dict(row)\<close> raises.\<close>

lemma py_dict_section_tuple: "py_dict (section_tuple s) = Inl TypeError"
  by (simp add: py_dict_def section_tuple_def)

lemma comprehension_first_raises:
  assumes "rows \<noteq> []" and "\<forall>r \<in> set rows. f r = Inl e"
  shows "comprehension f rows = Inl e"
  using assms by (cases rows) simp_all

text \<open>
  \<^verbatim>\<open>get_sections\<close> returns the empty list when no section matches and raises
  \<^verbatim>\<open>TypeError\<close> whenever one does.
\<close>

lemma get_sections_eq:
  "get_sections language prem d =
     (if select_sections language prem d = [] then Inr [] else Inl TypeError)"
proof (cases "select_sections language prem d = []")
  case True
  then show ?thesis by (simp add: get_sections_def)
next
  case False
  then have "comprehension py_dict (map section_tuple (select_sections language prem d))
             = Inl TypeError"
    by (intro comprehension_first_raises) (auto simp add: py_dict_section_tuple)
  with False show ?thesis by (simp add: get_sections_def)
qed

text \<open>
  The rows the query selects for a language and \<^verbatim>\<open>is_premium = False\<close> are the ones
  the claim describes: the sections of that language that are not premium, by
  \<^verbatim>\<open>created_at\<close> ascending. \<^verbatim>\<open>False\<close> does filter.
\<close>

lemma select_sections_exact:
  "mset (select_sections (Some l) (Some False) d)
     = mset [s \<leftarrow> sections d. (l = [] \<or> sec_language s = l) \<and> \<not> sec_is_premium s]
   \<and> sorted (map sec_created_at (select_sections (Some l) (Some False) d))"
proof -
  have "sections_where (Some l) (Some False)
        = (\<lambda>s. (l = [] \<or> sec_language s = l) \<and> \<not> sec_is_premium s)"
    by (auto simp add: sections_where_def fun_eq_iff)
  then show ?thesis by (simp add: select_sections_def)
qed

text \<open>
  Claim C9 at the input where the code departs from it. One section, not premium and
  tagged \<^verbatim>\<open>korean\<close>, has been created. The query of
  \<^verbatim>\<open>get_sections(language="korean", is_premium=False)\<close> selects it, and the call
  raises \<^verbatim>\<open>TypeError\<close> instead of returning it.
\<close>

theorem get_sections_raises_on_matching_rows:
  "create_section ''Hangul'' ''Alphabet'' (Some ''korean'') (Some False) None ts0 empty_db
     = Inr (1, db_korean)
   \<and> select_sections (Some ''korean'') (Some False) db_korean = sections db_korean
   \<and> get_sections (Some ''korean'') (Some False) db_korean = Inl TypeError"
  by (simp add: get_sections_eq select_sections_def sections_where_def create_section_def
      with_connection_single insert_section_def or_default_def db_korean_def empty_db_def)

section \<open>The referral counter and its writers\<close>

lemma store_of_Inr [simp]: "store_of (Inr (x, d)) = Inr d"
  by (simp add: store_of_def)

lemma store_of_Inl [simp]: "store_of (Inl e) = Inl e"
  by (simp add: store_of_def)

lemma create_section_eq:
  "create_section name description language prem created_by ts d =
     Inr (seq_sections d + 1,
          d\<lparr>sections := sections d @
               [\<lparr>sec_id = seq_sections d + 1, sec_name = name,
                 sec_description = description, sec_language = or_default ''uzbek'' language,
                 sec_is_premium = or_default False prem, sec_created_at = ts,
                 sec_created_by = created_by\<rparr>],
             seq_sections := seq_sections d + 1\<rparr>)"
  by (simp add: create_section_def with_connection_single insert_section_def)

lemma create_subsection_eq:
  "create_subsection section_id name description prem ts d =
     Inr (seq_subsections d + 1,
          d\<lparr>subsections := subsections d @
               [\<lparr>sub_id = seq_subsections d + 1, sub_section_id = section_id,
                 sub_name = name, sub_description = description,
                 sub_is_premium = or_default False prem, sub_created_at = ts\<rparr>],
             seq_subsections := seq_subsections d + 1\<rparr>)"
  by (simp add: create_subsection_def with_connection_single insert_subsection_def)

lemma add_content_eq:
  "add_content section_id subsection_id title description content_type file_id
       content_text prem ts d =
     Inr (seq_content d + 1,
          d\<lparr>content := content d @
               [\<lparr>c_id = seq_content d + 1, c_section_id = section_id,
                 c_subsection_id = subsection_id, c_title = title,
                 c_description = description, c_content_type = content_type,
                 c_file_id = file_id, c_file_path = None,
                 c_content_text = content_text, c_is_premium = or_default False prem,
                 c_created_at = ts\<rparr>],
             seq_content := seq_content d + 1\<rparr>)"
  by (simp add: add_content_def with_connection_single insert_content_def)

lemma delete_subsection_eq:
  "delete_subsection subid d =
     Inr (d\<lparr>content := [c \<leftarrow> content d. c_subsection_id c \<noteq> subid],
           subsections := [s \<leftarrow> subsections d. sub_id s \<noteq> subid]\<rparr>)"
  by (simp add: delete_subsection_def with_connection_def connect_def
      delete_content_where_subsection_def delete_subsections_where_id_def)

lemma delete_content_eq:
  "delete_content cid d = Inr (d\<lparr>content := [c \<leftarrow> content d. c_id c \<noteq> cid]\<rparr>)"
  by (simp add: delete_content_def with_connection_single delete_content_where_id_def)

lemma create_quiz_users:
  "create_quiz title description language category prem created_by ts d = Inr (i, d')
   \<Longrightarrow> users d' = users d"
  by (auto simp add: create_quiz_def with_connection_single insert_quiz_def)

lemma add_question_users:
  "add_question quiz_id question_text option_a option_b option_c option_d correct_answer
     explanation d = Inr (i, d') \<Longrightarrow> users d' = users d"
  by (auto simp add: add_question_def with_connection_single insert_question_def)

lemma delete_quiz_eq:
  "delete_quiz qid d =
     Inr (d\<lparr>questions := [q \<leftarrow> questions d. qn_quiz_id q \<noteq> qid],
           quizzes := [q \<leftarrow> quizzes d. qz_id q \<noteq> qid]\<rparr>)"
  by (simp add: delete_quiz_def with_connection_def connect_def
      delete_questions_where_quiz_def delete_quizzes_where_id_def)

lemma add_premium_content_users:
  "add_premium_content section_type title description file_id file_type content_text ts d
     = Inr (i, d') \<Longrightarrow> users d' = users d"
  by (auto simp add: add_premium_content_def with_connection_single
      insert_premium_content_def split: if_splits)

lemma delete_premium_content_eq:
  "delete_premium_content pid d =
     Inr (d\<lparr>premium_content := [p \<leftarrow> premium_content d. pc_id p \<noteq> pid]\<rparr>)"
  by (simp add: delete_premium_content_def with_connection_single
      delete_premium_content_where_id_def)


lemma get_user_cong: "users d' = users d \<Longrightarrow> get_user a d' = get_user a d"
  by (simp add: get_user_def)

lemma get_user_append:
  assumes "get_user a d = Some u"
  shows "get_user a (d\<lparr>users := users d @ [r]\<rparr>) = Some u"
proof -
  from assms obtain xs where "[x \<leftarrow> users d. user_id x = a] = u # xs"
    by (auto simp add: get_user_def fetchone_def split: list.splits)
  then show ?thesis by (simp add: get_user_def fetchone_def)
qed

lemma update_users_frame:
  assumes "get_user a d = Some u" and "\<And>x. user_id (f x) = user_id x"
    and "\<And>x. referral_count (f x) = referral_count x"
    and "update_users_where_id uid f d = Inr d'"
  shows "\<exists>u'. get_user a d' = Some u' \<and> referral_count u' = referral_count u"
proof (cases "uid = a")
  case True
  have "get_user a (d\<lparr>users := map (\<lambda>u. if user_id u = a then f u else u) (users d)\<rparr>)
        = map_option f (get_user a d)"
    by (rule get_user_after_update) (rule assms(2))
  with True assms(1,3,4) show ?thesis by (auto simp add: update_users_where_id_def)
next
  case False
  then have "get_user a (d\<lparr>users := map (\<lambda>u. if user_id u = uid then f u else u) (users d)\<rparr>)
        = get_user a d"
    by (intro get_other_user_after_update assms(2)) simp
  with assms(1,4) show ?thesis by (auto simp add: update_users_where_id_def)
qed

lemma update_users_other:
  assumes "get_user a d = Some u" and "\<And>x. user_id (f x) = user_id x" and "uid \<noteq> a"
    and "update_users_where_id uid f d = Inr d'"
  shows "get_user a d' = Some u"
proof -
  from assms(3) have "get_user a (d\<lparr>users := map (\<lambda>u. if user_id u = uid then f u else u) (users d)\<rparr>)
        = get_user a d"
    by (intro get_other_user_after_update assms(2)) simp
  with assms(1,4) show ?thesis by (auto simp add: update_users_where_id_def)
qed

lemma create_user_frame:
  assumes "get_user a d = Some u"
    and "create_user rnd uid uname fname lname ref_by ts d = Inr d'"
  shows "get_user a d' = Some u"
proof -
  from assms(2)
  have "d' = d \<or> d' = d\<lparr>users := users d @ [new_user rnd uid uname fname lname ref_by ts]\<rparr>"
    unfolding create_user_eq insert_or_ignore_user_def by (simp split: if_splits)
  with assms(1) show ?thesis by (auto simp add: get_user_append)
qed

lemma record_quiz_attempt_frame:
  assumes "get_user a d = Some u"
    and "record_quiz_attempt uid q s t ts d = Inr d'"
  shows "\<exists>u'. get_user a d' = Some u' \<and> referral_count u' = referral_count u"
proof -
  let ?f = "\<lambda>u. u\<lparr>quiz_score_total := quiz_score_total u + s,
                    quiz_attempts := quiz_attempts u + 1\<rparr>"
  let ?d1 = "d\<lparr>users := map (\<lambda>u. if user_id u = uid then ?f u else u) (users d)\<rparr>"
  have "update_users_where_id uid ?f d = Inr ?d1"
    by (simp add: update_users_where_id_def)
  with assms(1) have "\<exists>u'. get_user a ?d1 = Some u' \<and> referral_count u' = referral_count u"
    by (intro update_users_frame [of a d u ?f uid ?d1]) simp_all
  moreover have "users d' = users ?d1"
    using assms(2) by (auto simp add: record_quiz_attempt_eq)
  ultimately show ?thesis by (simp add: get_user_def)
qed


lemma call_keeps_referral_count:
  assumes u: "get_user a d = Some u" and run: "call isoformat op d = Inr d'"
    and op: "op \<noteq> UpdateReferralCount a" "op \<noteq> ResetReferralCount a"
  shows "\<exists>u'. get_user a d' = Some u' \<and> referral_count u' = referral_count u"
proof (cases op)
  case (CreateUser rnd uid uname fname lname ref_by ts)
  with run have "create_user rnd uid uname fname lname ref_by ts d = Inr d'" by simp
  with u have "get_user a d' = Some u" by (rule create_user_frame)
  then show ?thesis by simp
next
  case (UpdateUserActivity uid activity_type ts)
  with run have upd: "update_users_where_id uid
      (\<lambda>u. u\<lparr>last_activity := ts, total_sessions := total_sessions u + 1\<rparr>) d = Inr d'"
    by (simp add: update_user_activity_def with_connection_single)
  show ?thesis by (rule update_users_frame [OF u _ _ upd]) simp_all
next
  case (ActivatePremium now uid duration_days)
  with run have upd: "update_users_where_id uid
      (\<lambda>u. u\<lparr>is_premium := True, premium_expires_at :=
         Some (isoformat (now + timedelta_days (or_default 30 duration_days)))\<rparr>) d = Inr d'"
    by (simp add: activate_premium_eq update_users_where_id_def split: if_splits)
  show ?thesis by (rule update_users_frame [OF u _ _ upd]) simp_all
next
  case (RevokePremium uid)
  with run have upd: "update_users_where_id uid
      (\<lambda>u. u\<lparr>is_premium := False, premium_expires_at := None\<rparr>) d = Inr d'"
    by (simp add: revoke_premium_def with_connection_single)
  show ?thesis by (rule update_users_frame [OF u _ _ upd]) simp_all
next
  case (UpdateUserRating uid points)
  with run have upd: "update_users_where_id uid
      (\<lambda>u. u\<lparr>rating_score := rating_score u + points\<rparr>) d = Inr d'"
    by (simp add: update_user_rating_def with_connection_single)
  show ?thesis by (rule update_users_frame [OF u _ _ upd]) simp_all
next
  case (UpdateWordsLearned uid cnt)
  with run have upd: "update_users_where_id uid
      (\<lambda>u. u\<lparr>words_learned := words_learned u + or_default 1 cnt\<rparr>) d = Inr d'"
    by (simp add: update_words_learned_def with_connection_single)
  show ?thesis by (rule update_users_frame [OF u _ _ upd]) simp_all
next
  case (AddReferral referrer referred ts)
  with run have "users d' = users d" by (auto simp add: add_referral_eq)
  with u show ?thesis by (simp add: get_user_def)
next
  case (UpdateReferralCount uid)
  with op(1) have ne: "uid \<noteq> a" by simp
  from run UpdateReferralCount have upd: "update_users_where_id uid
      (\<lambda>u. u\<lparr>referral_count := referral_count u + 1\<rparr>) d = Inr d'"
    by (simp add: update_referral_count_def with_connection_single)
  have "get_user a d' = Some u" by (rule update_users_other [OF u _ ne upd]) simp
  then show ?thesis by simp
next
  case (ResetReferralCount uid)
  with op(2) have ne: "uid \<noteq> a" by simp
  from run ResetReferralCount have upd: "update_users_where_id uid
      (\<lambda>u. u\<lparr>referral_count := 0\<rparr>) d = Inr d'"
    by (simp add: reset_referral_count_def with_connection_single)
  have "get_user a d' = Some u" by (rule update_users_other [OF u _ ne upd]) simp
  then show ?thesis by simp
next
  case (RecordQuizAttempt uid quiz_id score total_questions ts)
  with run have "record_quiz_attempt uid quiz_id score total_questions ts d = Inr d'" by simp
  with u show ?thesis by (rule record_quiz_attempt_frame)
next
  case (CreateSection name description language prem created_by ts)
  with run have "users d' = users d" by (auto simp add: create_section_eq)
  with u show ?thesis by (simp add: get_user_def)
next
  case (CreateSubsection section_id name description prem ts)
  with run have "users d' = users d" by (auto simp add: create_subsection_eq)
  with u show ?thesis by (simp add: get_user_def)
next
  case (AddContent section_id subsection_id title description content_type file_id
      content_text prem ts)
  with run have "users d' = users d" by (auto simp add: add_content_eq)
  with u show ?thesis by (simp add: get_user_def)
next
  case (DeleteSection section_id)
  with run have "users d' = users d" by (auto simp add: delete_section_eq)
  with u show ?thesis by (simp add: get_user_def)
next
  case (DeleteSubsection subsection_id)
  with run have "users d' = users d" by (auto simp add: delete_subsection_eq)
  with u show ?thesis by (simp add: get_user_def)
next
  case (DeleteContent content_id)
  with run have "users d' = users d" by (auto simp add: delete_content_eq)
  with u show ?thesis by (simp add: get_user_def)
next
  case (CreateQuiz title description language category prem created_by ts)
  with run obtain i where
    "create_quiz title description language category prem created_by ts d = Inr (i, d')"
    by (auto simp add: store_of_def split: sum.splits)
  then have "users d' = users d" by (rule create_quiz_users)
  with u show ?thesis by (simp add: get_user_def)
next
  case (AddQuestion quiz_id question_text option_a option_b option_c option_d
      correct_answer explanation)
  with run obtain i where
    "add_question quiz_id question_text option_a option_b option_c option_d correct_answer
       explanation d = Inr (i, d')"
    by (auto simp add: store_of_def split: sum.splits)
  then have "users d' = users d" by (rule add_question_users)
  with u show ?thesis by (simp add: get_user_def)
next
  case (DeleteQuiz quiz_id)
  with run have "users d' = users d" by (auto simp add: delete_quiz_eq)
  with u show ?thesis by (simp add: get_user_def)
next
  case (AddPremiumContent section_type title description file_id file_type content_text ts)
  with run obtain i where
    "add_premium_content section_type title description file_id file_type content_text ts d
       = Inr (i, d')"
    by (auto simp add: store_of_def split: sum.splits)
  then have "users d' = users d" by (rule add_premium_content_users)
  with u show ?thesis by (simp add: get_user_def)
next
  case (DeletePremiumContent content_id)
  with run have "users d' = users d" by (auto simp add: delete_premium_content_eq)
  with u show ?thesis by (simp add: get_user_def)
qed

text \<open>
  Claim C8, as the code has it. For a referrer \<open>a\<close> with row \<open>u\<close> and any \<open>b\<close>:
  \<^verbatim>\<open>add_referral(a, b)\<close> appends one edge \<open>(a, b)\<close> to \<^verbatim>\<open>referrals\<close>, after which
  \<^verbatim>\<open>get_user_referrals_count(a)\<close> is one more than before, and it leaves the whole
  \<^verbatim>\<open>users\<close> table, with \<^verbatim>\<open>referral_count\<close> of \<open>a\<close>, as it was.
  \<^verbatim>\<open>update_referral_count(a)\<close> adds one to \<^verbatim>\<open>referral_count\<close> of \<open>a\<close> and leaves the
  edges as they were; \<^verbatim>\<open>reset_referral_count(a)\<close> sets it to zero. These two are the
  only writers of the field: after any other call of a function of the module that
  writes, and after either of the two for another user, the row of \<open>a\<close> is still
  there with the \<^verbatim>\<open>referral_count\<close> it had.
\<close>

theorem referral_count_changes_only_by_update_and_reset:
  assumes "get_user a d = Some u"
  shows "(\<exists>d'. add_referral a b ts d = Inr d'
            \<and> referrals d' = referrals d @
                 [\<lparr>ref_id = seq_referrals d + 1, referrer_id = a, referred_id = b,
                   ref_created_at = ts\<rparr>]
            \<and> get_user_referrals_count a d' = get_user_referrals_count a d + 1
            \<and> users d' = users d
            \<and> get_user a d' = Some u)
       \<and> (\<exists>d'. update_referral_count a d = Inr d'
            \<and> get_user a d' = Some (u\<lparr>referral_count := referral_count u + 1\<rparr>)
            \<and> referrals d' = referrals d
            \<and> get_user_referrals_count a d' = get_user_referrals_count a d)
       \<and> (\<exists>d'. reset_referral_count a d = Inr d'
            \<and> get_user a d' = Some (u\<lparr>referral_count := 0\<rparr>))
       \<and> (\<forall>op d'. call isoformat op d = Inr d'
              \<and> op \<noteq> UpdateReferralCount a \<and> op \<noteq> ResetReferralCount a
            \<longrightarrow> (\<exists>u'. get_user a d' = Some u' \<and> referral_count u' = referral_count u))"
proof (intro conjI)
  show "\<exists>d'. add_referral a b ts d = Inr d'
            \<and> referrals d' = referrals d @
                 [\<lparr>ref_id = seq_referrals d + 1, referrer_id = a, referred_id = b,
                   ref_created_at = ts\<rparr>]
            \<and> get_user_referrals_count a d' = get_user_referrals_count a d + 1
            \<and> users d' = users d
            \<and> get_user a d' = Some u"
    using assms by (simp add: add_referral_eq get_user_referrals_count_def get_user_def)
next
  have "get_user a (d\<lparr>users := map (\<lambda>u. if user_id u = a
          then u\<lparr>referral_count := referral_count u + 1\<rparr> else u) (users d)\<rparr>)
        = map_option (\<lambda>u. u\<lparr>referral_count := referral_count u + 1\<rparr>) (get_user a d)"
    by (rule get_user_after_update) simp
  then show "\<exists>d'. update_referral_count a d = Inr d'
            \<and> get_user a d' = Some (u\<lparr>referral_count := referral_count u + 1\<rparr>)
            \<and> referrals d' = referrals d
            \<and> get_user_referrals_count a d' = get_user_referrals_count a d"
    using assms by (simp add: update_referral_count_eq get_user_referrals_count_def)
next
  have "get_user a (d\<lparr>users := map (\<lambda>u. if user_id u = a
          then u\<lparr>referral_count := 0\<rparr> else u) (users d)\<rparr>)
        = map_option (\<lambda>u. u\<lparr>referral_count := 0\<rparr>) (get_user a d)"
    by (rule get_user_after_update) simp
  then show "\<exists>d'. reset_referral_count a d = Inr d'
            \<and> get_user a d' = Some (u\<lparr>referral_count := 0\<rparr>)"
    using assms
    by (simp add: reset_referral_count_def with_connection_single update_users_where_id_def)
next
  show "\<forall>op d'. call isoformat op d = Inr d'
              \<and> op \<noteq> UpdateReferralCount a \<and> op \<noteq> ResetReferralCount a
            \<longrightarrow> (\<exists>u'. get_user a d' = Some u' \<and> referral_count u' = referral_count u)"
    using assms call_keeps_referral_count by blast
qed

theorem referral_count_changes_only_by_update_and_reset_witness:
  "get_user 1 db_ann = Some ann
   \<and> (\<exists>d'. add_referral 1 2 ts0 db_ann = Inr d'
         \<and> get_user_referrals_count 1 d' = get_user_referrals_count 1 db_ann + 1
         \<and> get_user 1 d' = Some ann)
   \<and> (\<exists>d'. update_referral_count 1 db_ann = Inr d'
         \<and> get_user 1 d' = Some (ann\<lparr>referral_count := referral_count ann + 1\<rparr>)
         \<and> get_user_referrals_count 1 d' = get_user_referrals_count 1 db_ann)
   \<and> (\<exists>d' u'. call demo_isoformat (RecordQuizAttempt 1 4 7 10 ts0) db_ann = Inr d'
         \<and> get_user 1 d' = Some u' \<and> referral_count u' = referral_count ann)"
proof -
  note facts = referral_count_changes_only_by_update_and_reset
    [OF get_user_1_db_ann, of 2 ts0 demo_isoformat]
  have "\<exists>d'. call demo_isoformat (RecordQuizAttempt 1 4 7 10 ts0) db_ann = Inr d'"
    by (simp add: record_quiz_attempt_eq)
  then obtain d' where r: "call demo_isoformat (RecordQuizAttempt 1 4 7 10 ts0) db_ann = Inr d'"
    by blast
  have "RecordQuizAttempt 1 4 7 10 ts0 \<noteq> UpdateReferralCount 1"
    and "RecordQuizAttempt 1 4 7 10 ts0 \<noteq> ResetReferralCount 1"
    by simp_all
  with r facts
  have "\<exists>u'. get_user 1 d' = Some u' \<and> referral_count u' = referral_count ann"
    by blast
  with r have "\<exists>d' u'. call demo_isoformat (RecordQuizAttempt 1 4 7 10 ts0) db_ann = Inr d'
         \<and> get_user 1 d' = Some u' \<and> referral_count u' = referral_count ann"
    by blast
  with get_user_1_db_ann facts show ?thesis by blast
qed

text \<open>
  Claim C8 as stated fails in its last part: \<^verbatim>\<open>update_referral_count\<close> is not the only
  call that changes \<^verbatim>\<open>referral_count\<close>. After one \<^verbatim>\<open>update_referral_count(1)\<close> Ann's
  counter is 1; \<^verbatim>\<open>reset_referral_count(1)\<close> then changes it to 0.
\<close>

theorem reset_referral_count_changes_referral_count:
  "update_referral_count 1 db_ann = Inr db_ann_referred
   \<and> map referral_count (users db_ann_referred) = [1]
   \<and> reset_referral_count 1 db_ann_referred = Inr db_ann
   \<and> map referral_count (users db_ann) = [0]"
  by (simp add: update_referral_count_eq reset_referral_count_def with_connection_single
      update_users_where_id_def db_ann_def db_ann_referred_def ann_def new_user_def
      empty_db_def)

end
